theory Spec2Isabelle
  imports Complex_Main "HOL-Library.Word"
begin

section \<open>Shared vocabulary\<close>

text \<open>
  The two tile engines of the repository are \<^verbatim>\<open>streetlevel/streetside/streetside.py\<close>
  (quadtree cubemap engine) and \<^verbatim>\<open>streetlevel/streetview/streetview.py\<close> (grid
  equirectangular engine). Both modules define functions of the same name
  (\<^verbatim>\<open>_generate_tile_list\<close>, \<^verbatim>\<open>get_panorama\<close>); the embedding prefixes them with the
  module name.

  Every exception the modelled code can raise is a constructor of \<open>error\<close>; a function
  that can raise returns \<open>error + 'a\<close> with \<open>Inl\<close> for the exception.
  \<^item> \<open>InvalidZoom\<close> is \<^verbatim>\<open>ValueError("Zoom can't be greater than 4")\<close>;
  \<^item> \<open>InvalidState\<close> is \<^verbatim>\<open>ValueError("pano.image_sizes is None.")\<close>;
  \<^item> \<open>TypeError\<close>, \<open>IndexError\<close>, \<open>KeyError\<close>, \<open>AttributeError\<close>,
    \<open>ZeroDivisionError\<close> and \<open>OverflowError\<close> are the Python built-ins of the same
    name, and \<open>ValueError\<close> is any other \<^verbatim>\<open>ValueError\<close>;
  \<^item> \<open>UnidentifiedImageError\<close> is what the image library raises on bytes that are not
    an image;
  \<^item> \<open>FetchFailure\<close> stands for whatever the download collaborator raises.
\<close>

datatype error =
    InvalidZoom
  | InvalidState
  | TypeError
  | IndexError
  | KeyError
  | AttributeError
  | ZeroDivisionError
  | ValueError
  | OverflowError
  | UnidentifiedImageError
  | FetchFailure

type_synonym bytes = "8 word list"

section \<open>Quadtree cubemap engine: address generation\<close>

definition TILE_SIZE :: nat where
  "TILE_SIZE = 256"

definition base4_digit :: "nat \<Rightarrow> char" where
  "base4_digit d =
     (if d = 0 then CHR ''0'' else if d = 1 then CHR ''1''
      else if d = 2 then CHR ''2'' else CHR ''3'')"

text \<open>
  Modelled from the spec: \<^verbatim>\<open>to_base4\<close> is imported from \<^verbatim>\<open>streetside/util.py\<close>, which
  is not among the sources. The spec says only "encode \<dots> in base 4"; the model is the
  usual positional representation without leading zeros, most significant digit first,
  with \<open>''0''\<close> for zero. (Every use below pads the result to a width of at least one,
  so the representation chosen for zero does not show in any result.) The argument is an
  unsigned integer, as the spec states for panorama ids.
\<close>

fun to_base4 :: "nat \<Rightarrow> string" where
  "to_base4 n =
     (if n < 4 then [base4_digit n] else to_base4 (n div 4) @ [base4_digit (n mod 4)])"

declare to_base4.simps [simp del]

text \<open>Python's \<^verbatim>\<open>str.rjust(width, fillchar)\<close>: pad on the left up to \<open>width\<close>.\<close>

definition rjust :: "string \<Rightarrow> int \<Rightarrow> char \<Rightarrow> string" where
  "rjust s width fillchar = replicate (nat (width - int (length s))) fillchar @ s"

text \<open>
  A tile of the cubemap engine is the dictionary
  \<^verbatim>\<open>{"face": ..., "subdiv": ..., "url": ...}\<close>, which \<^verbatim>\<open>_download_tiles\<close> later extends
  with the key \<^verbatim>\<open>"image"\<close>; \<open>t_image = None\<close> is the dictionary without that key.
\<close>

record ss_tile =
  t_face :: string
  t_subdiv :: nat
  t_url :: string
  t_image :: "bytes option"

text \<open>
  \<^verbatim>\<open>_generate_tile_list(panoid, zoom)\<close> of \<^verbatim>\<open>streetside.py\<close>. The result dictionary
  \<^verbatim>\<open>faces\<close> is filled with the keys 0..5 in this order; it is the association list of
  its items in insertion order.

  For a negative \<open>zoom\<close>, \<^verbatim>\<open>pow(4, zoom)\<close> is a float, and \<^verbatim>\<open>range(0, subdivs)\<close> in the
  first iteration of the outer loop raises \<^verbatim>\<open>TypeError\<close>.
\<close>

definition streetside_generate_tile_list ::
    "nat \<Rightarrow> int \<Rightarrow> error + (nat \<times> ss_tile list) list" where
  "streetside_generate_tile_list panoid zoom =
     (if zoom > 4 then Inl InvalidZoom
      else if zoom < 0 then Inl TypeError
      else
        let panoid_base4 = rjust (to_base4 panoid) 16 CHR ''0'';
            subdivs = (4::nat) ^ nat zoom
        in Inr (map (\<lambda>face_id.
             let face_id_base4 = rjust (to_base4 (face_id + 1)) 2 CHR ''0'' in
             (face_id,
              map (\<lambda>subdiv.
                let subdiv_base4 =
                      (if zoom < 1 then [] else rjust (to_base4 subdiv) zoom CHR ''0'');
                    tile_key = face_id_base4 @ subdiv_base4;
                    url = ''https://t.ssl.ak.tiles.virtualearth.net/tiles/hs''
                            @ panoid_base4 @ tile_key @ ''.jpg?g=13716''
                in \<lparr>t_face = face_id_base4, t_subdiv = subdiv, t_url = url,
                    t_image = None\<rparr>)
              [0..<subdivs]))
           [0..<6]))"

subsection \<open>The specification's wording of the codes\<close>

text \<open>
  The spec speaks of "the zero-padded \<open>k\<close>-digit base-4 representation" of a number.
  \<open>base4_fixed k n\<close> is that representation, written from the spec's words:
  \<open>k\<close> digits, most significant first, the last one being \<open>n mod 4\<close>.
  \<open>from_base4\<close> reads a digit string back.
\<close>

fun base4_fixed :: "nat \<Rightarrow> nat \<Rightarrow> string" where
  "base4_fixed 0 n = []"
| "base4_fixed (Suc k) n = base4_fixed k (n div 4) @ [base4_digit (n mod 4)]"

definition base4_value :: "char \<Rightarrow> nat" where
  "base4_value c =
     (if c = CHR ''0'' then 0 else if c = CHR ''1'' then 1
      else if c = CHR ''2'' then 2 else 3)"

definition from_base4 :: "string \<Rightarrow> nat" where
  "from_base4 s = foldl (\<lambda>acc c. 4 * acc + base4_value c) 0 s"

definition cubemap_tile_url :: "nat \<Rightarrow> nat \<Rightarrow> nat \<Rightarrow> nat \<Rightarrow> string" where
  "cubemap_tile_url panoid face_no z subdiv =
     ''https://t.ssl.ak.tiles.virtualearth.net/tiles/hs''
       @ base4_fixed 16 panoid @ base4_fixed 2 face_no @ base4_fixed z subdiv
       @ ''.jpg?g=13716''"


section \<open>Quadtree cubemap engine: download and stitching\<close>

text \<open>
  Images are the terms built by the three PIL operations the engines use:
  \<^verbatim>\<open>Image.open(BytesIO(b))\<close> gives \<open>Decoded b\<close> when the bytes decode,
  \<^verbatim>\<open>Image.new('RGB', (w, h))\<close> is \<open>New w h\<close>, and
  \<^verbatim>\<open>canvas.paste(im=im, box=(x, y))\<close>, which mutates \<open>canvas\<close>, is the new value
  \<open>Paste canvas im x y\<close> of the canvas. The pixel size of a decoded tile is not known
  to the engine, so \<open>canvas_size\<close> answers only for canvases.

  Decoding is the work of the image library and can fail: on bytes that are not an image
  it raises \<^verbatim>\<open>UnidentifiedImageError\<close>, which the engine does not catch. Which byte
  strings decode is the parameter \<open>decodable\<close>.
\<close>

datatype img =
    Decoded bytes
  | New nat nat
  | Paste img img nat nat

definition image_open :: "(bytes \<Rightarrow> bool) \<Rightarrow> bytes \<Rightarrow> error + img" where
  "image_open decodable b =
     (if decodable b then Inr (Decoded b) else Inl UnidentifiedImageError)"

fun canvas_size :: "img \<Rightarrow> (nat \<times> nat) option" where
  "canvas_size (Decoded b) = None"
| "canvas_size (New w h) = Some (w, h)"
| "canvas_size (Paste canvas im x y) = canvas_size canvas"

text \<open>
  Every call of \<^verbatim>\<open>_stitch_four\<close> and every call of \<^verbatim>\<open>_stitch_face\<close> that does not
  delegate to it creates one canvas and pastes into it what the calls below it return.
  \<open>nesting\<close> is the length of the longest chain of canvases pasted into canvases, that
  is, the number of levels of stitching that produced the image.
\<close>

fun nesting :: "img \<Rightarrow> nat" where
  "nesting (Decoded b) = 0"
| "nesting (New w h) = 1"
| "nesting (Paste canvas im x y) = max (nesting canvas) (Suc (nesting im))"

text \<open>
  The download collaborator \<^verbatim>\<open>download_files_async\<close> (\<^verbatim>\<open>streetlevel/util.py\<close>, not
  among the sources) is a parameter \<open>fetch\<close>: it is given the URLs of one batch and
  either raises or returns a list of byte strings.

  \<^verbatim>\<open>for idx, tile in enumerate(face): tile["image"] = tiles[idx]\<close> raises
  \<^verbatim>\<open>IndexError\<close> at the first tile for which the batch has no result.
\<close>

fun attach_images :: "ss_tile list \<Rightarrow> bytes list \<Rightarrow> error + ss_tile list" where
  "attach_images [] tiles = Inr []"
| "attach_images (tile # face) [] = Inl IndexError"
| "attach_images (tile # face) (b # tiles) =
     (case attach_images face tiles of
        Inl e \<Rightarrow> Inl e
      | Inr face' \<Rightarrow> Inr (tile\<lparr>t_image := Some b\<rparr> # face'))"

fun download_tiles ::
    "(string list \<Rightarrow> error + bytes list) \<Rightarrow> (nat \<times> ss_tile list) list
      \<Rightarrow> error + (nat \<times> ss_tile list) list" where
  "download_tiles fetch [] = Inr []"
| "download_tiles fetch ((face_id, face) # faces) =
     (case fetch (map t_url face) of
        Inl e \<Rightarrow> Inl e
      | Inr tiles \<Rightarrow>
          (case attach_images face tiles of
             Inl e \<Rightarrow> Inl e
           | Inr face' \<Rightarrow>
               (case download_tiles fetch faces of
                  Inl e \<Rightarrow> Inl e
                | Inr faces' \<Rightarrow> Inr ((face_id, face') # faces'))))"

text \<open>
  \<^verbatim>\<open>_stitch_four\<close>: the loop over \<^verbatim>\<open>enumerate(face[0:4])\<close>, with the canvas passed
  along. A tile without the key \<^verbatim>\<open>"image"\<close> raises \<^verbatim>\<open>KeyError\<close>, and a tile whose
  bytes do not decode raises the error of the image library.
\<close>

fun stitch_four_loop ::
    "(bytes \<Rightarrow> bool) \<Rightarrow> img \<Rightarrow> (nat \<times> ss_tile) list \<Rightarrow> error + img" where
  "stitch_four_loop decodable sub_tile [] = Inr sub_tile"
| "stitch_four_loop decodable sub_tile ((idx, tile) # rest) =
     (case t_image tile of
        None \<Rightarrow> Inl KeyError
      | Some b \<Rightarrow>
          (case image_open decodable b of
             Inl e \<Rightarrow> Inl e
           | Inr tile_img \<Rightarrow>
               let x = idx mod 2;
                   y = idx div 2
               in stitch_four_loop decodable
                    (Paste sub_tile tile_img (x * TILE_SIZE) (y * TILE_SIZE)) rest))"

definition stitch_four :: "(bytes \<Rightarrow> bool) \<Rightarrow> ss_tile list \<Rightarrow> error + img" where
  "stitch_four decodable face =
     stitch_four_loop decodable (New (TILE_SIZE * 2) (TILE_SIZE * 2))
       (enumerate 0 (take 4 face))"

text \<open>
  \<^verbatim>\<open>range(0, stop, step)\<close> for a positive step, and \<^verbatim>\<open>_split_list\<close>. A step of zero
  raises \<^verbatim>\<open>ValueError\<close>, and a negative step gives the empty range. The slice
  \<^verbatim>\<open>lst[i:i + size]\<close> is \<open>take size (drop i lst)\<close>.
\<close>

definition py_range_step :: "nat \<Rightarrow> nat \<Rightarrow> nat list" where
  "py_range_step stop step = map (\<lambda>j. j * step) [0..<(stop + step - 1) div step]"

definition split_list :: "'a list \<Rightarrow> int \<Rightarrow> error + 'a list list" where
  "split_list lst sz =
     (if sz = 0 then Inl ValueError
      else if sz < 0 then Inr []
      else Inr (map (\<lambda>i. take (nat sz) (drop i lst)) (py_range_step (length lst) (nat sz))))"

definition list_get :: "'a list \<Rightarrow> nat \<Rightarrow> error + 'a" where
  "list_get xs i = (if i < length xs then Inr (xs ! i) else Inl IndexError)"

text \<open>
  \<^verbatim>\<open>int(math.sqrt(n))\<close>: the integer square root. (The float square root is exact on
  perfect squares and its floor is the integer square root for every \<open>n\<close> below \<open>2^52\<close>.)
\<close>

primrec isqrt_below :: "nat \<Rightarrow> nat \<Rightarrow> nat" where
  "isqrt_below 0 n = 0"
| "isqrt_below (Suc m) n = (if Suc m * Suc m \<le> n then Suc m else isqrt_below m n)"

definition isqrt :: "nat \<Rightarrow> nat" where
  "isqrt n = isqrt_below n n"

text \<open>
  \<^verbatim>\<open>_stitch_face\<close>. The four quadrants are stitched and pasted one after the other, so
  the first failure is the one that is raised.
\<close>

function stitch_face :: "(bytes \<Rightarrow> bool) \<Rightarrow> ss_tile list \<Rightarrow> error + img" where
  "stitch_face decodable face =
     (if length face \<le> 4 then stitch_four decodable face
      else
        let grid_size = isqrt (length face);
            stitched_tile_size = (grid_size div 2) * TILE_SIZE;
            tile = New (stitched_tile_size * 2) (stitched_tile_size * 2)
        in
        case split_list face (int (length face) div 4) of
          Inl e \<Rightarrow> Inl e
        | Inr split \<Rightarrow>
        (case list_get split 0 of Inl e \<Rightarrow> Inl e | Inr s0 \<Rightarrow>
         case stitch_face decodable s0 of Inl e \<Rightarrow> Inl e | Inr q0 \<Rightarrow>
         case list_get split 1 of Inl e \<Rightarrow> Inl e | Inr s1 \<Rightarrow>
         case stitch_face decodable s1 of Inl e \<Rightarrow> Inl e | Inr q1 \<Rightarrow>
         case list_get split 2 of Inl e \<Rightarrow> Inl e | Inr s2 \<Rightarrow>
         case stitch_face decodable s2 of Inl e \<Rightarrow> Inl e | Inr q2 \<Rightarrow>
         case list_get split 3 of Inl e \<Rightarrow> Inl e | Inr s3 \<Rightarrow>
         case stitch_face decodable s3 of Inl e \<Rightarrow> Inl e | Inr q3 \<Rightarrow>
           Inr (Paste (Paste (Paste (Paste tile
                  q0 0 0)
                  q1 stitched_tile_size 0)
                  q2 0 stitched_tile_size)
                  q3 stitched_tile_size stitched_tile_size)))"
  by pat_completeness auto
termination
proof (relation "measure (\<lambda>(decodable, face). length face)")
  show "wf (measure (\<lambda>(decodable, face). length face))" by simp
next
  have shorter: "((d, s), (d, face)) \<in> measure (\<lambda>(decodable, face). length face)"
    if "\<not> length face \<le> 4"
      and "split_list face (int (length face) div 4) = Inr split"
      and "list_get split i = Inr s"
    for face :: "ss_tile list" and split i s and d :: "bytes \<Rightarrow> bool"
  proof -
    from that(3) have "s \<in> set split"
      by (auto simp: list_get_def split: if_splits)
    with that(2) have "length s \<le> nat (int (length face) div 4)"
      by (auto simp: split_list_def split: if_splits)
    with that(1) show ?thesis by simp
  qed
  fix decodable :: "bytes \<Rightarrow> bool"
    and face :: "ss_tile list" and x xa xb split s0 q0 s1 q1 s2 q2 s3
  assume big: "\<not> length face \<le> 4"
    and sp: "split_list face (int (length face) div 4) = Inr split"
  {
    assume "list_get split 0 = Inr s0"
    with big sp show "((decodable, s0), (decodable, face)) \<in> measure (\<lambda>(decodable, face). length face)"
      by (rule shorter)
  }
  {
    assume "list_get split 1 = Inr s1"
    with big sp show "((decodable, s1), (decodable, face)) \<in> measure (\<lambda>(decodable, face). length face)"
      by (rule shorter)
  }
  {
    assume "list_get split 2 = Inr s2"
    with big sp show "((decodable, s2), (decodable, face)) \<in> measure (\<lambda>(decodable, face). length face)"
      by (rule shorter)
  }
  {
    assume "list_get split 3 = Inr s3"
    with big sp show "((decodable, s3), (decodable, face)) \<in> measure (\<lambda>(decodable, face). length face)"
      by (rule shorter)
  }
qed

declare stitch_face.simps [simp del]

text \<open>
  \<^verbatim>\<open>faces[k]\<close> on the dictionary of faces raises \<^verbatim>\<open>KeyError\<close> for a missing key.
  \<open>for_each f ks\<close> is a loop \<^verbatim>\<open>for k in ks: out.append(f(k))\<close> that stops at the
  first exception.
\<close>

definition dict_get :: "('k \<times> 'v) list \<Rightarrow> 'k \<Rightarrow> error + 'v" where
  "dict_get d k = (case map_of d k of None \<Rightarrow> Inl KeyError | Some v \<Rightarrow> Inr v)"

fun for_each :: "('k \<Rightarrow> error + 'a) \<Rightarrow> 'k list \<Rightarrow> error + 'a list" where
  "for_each f [] = Inr []"
| "for_each f (k # ks) =
     (case f k of
        Inl e \<Rightarrow> Inl e
      | Inr v \<Rightarrow> (case for_each f ks of Inl e \<Rightarrow> Inl e | Inr vs \<Rightarrow> Inr (v # vs)))"

text \<open>
  \<^verbatim>\<open>_stitch_panorama\<close>. The composition of the six faces,
  \<^verbatim>\<open>stitch_cubemap_faces\<close> of \<^verbatim>\<open>streetlevel/util.py\<close>, is not among the sources and is
  the parameter \<open>compose\<close>.
\<close>

definition stitch_panorama ::
    "(bytes \<Rightarrow> bool) \<Rightarrow> (img list \<Rightarrow> nat \<Rightarrow> 'm \<Rightarrow> error + 'out)
      \<Rightarrow> (nat \<times> ss_tile list) list \<Rightarrow> 'm \<Rightarrow> error + 'out" where
  "stitch_panorama decodable compose faces stitching_method =
     (case dict_get faces 1 of
        Inl e \<Rightarrow> Inl e
      | Inr face1 \<Rightarrow>
          let full_tile_size = isqrt (length face1) * TILE_SIZE in
          case (if length face1 = 1
                then for_each (\<lambda>i.
                       case dict_get faces i of
                         Inl e \<Rightarrow> Inl e
                       | Inr face \<Rightarrow>
                           (case face of
                              [] \<Rightarrow> Inl IndexError
                            | tile # _ \<Rightarrow>
                                (case t_image tile of
                                   None \<Rightarrow> Inl KeyError
                                 | Some b \<Rightarrow> image_open decodable b)))
                     [0..<6]
                else for_each (\<lambda>i.
                       case dict_get faces i of
                         Inl e \<Rightarrow> Inl e
                       | Inr face \<Rightarrow> stitch_face decodable face)
                     [0..<6]) of
            Inl e \<Rightarrow> Inl e
          | Inr stitched_faces \<Rightarrow> compose stitched_faces full_tile_size stitching_method)"

text \<open>
  \<^verbatim>\<open>StreetsidePanorama\<close> (\<^verbatim>\<open>streetside/panorama.py\<close>): the engine reads the fields
  \<^verbatim>\<open>id\<close> and \<^verbatim>\<open>max_zoom\<close>. The other fields of the class are the extension part of
  the record, and every function below is defined for any extension.

  \<^verbatim>\<open>get_panorama\<close> of \<^verbatim>\<open>streetside.py\<close>; \<open>streetside_get_panorama_tile_list\<close> is its
  first two statements, the tile list it asks \<^verbatim>\<open>_download_tiles\<close> to fetch.
  \<^verbatim>\<open>get_panorama_async\<close> is the same sequence of calls.
\<close>

record StreetsidePanorama =
  id_ss :: nat
  max_zoom :: int

definition streetside_get_panorama_tile_list ::
    "'a StreetsidePanorama_scheme \<Rightarrow> int \<Rightarrow> error + (nat \<times> ss_tile list) list" where
  "streetside_get_panorama_tile_list pano zoom =
     (let zoom = max 0 (min zoom (max_zoom pano))
      in streetside_generate_tile_list (id_ss pano) zoom)"

definition streetside_get_panorama ::
    "(string list \<Rightarrow> error + bytes list) \<Rightarrow> (bytes \<Rightarrow> bool)
      \<Rightarrow> (img list \<Rightarrow> nat \<Rightarrow> 'm \<Rightarrow> error + 'out)
      \<Rightarrow> 'a StreetsidePanorama_scheme \<Rightarrow> int \<Rightarrow> 'm \<Rightarrow> error + 'out" where
  "streetside_get_panorama fetch decodable compose pano zoom stitching_method =
     (case streetside_get_panorama_tile_list pano zoom of
        Inl e \<Rightarrow> Inl e
      | Inr faces \<Rightarrow>
          (case download_tiles fetch faces of
             Inl e \<Rightarrow> Inl e
           | Inr faces \<Rightarrow> stitch_panorama decodable compose faces stitching_method))"

text \<open>
  The wording of the spec for a failed batch: the fetch raised, or it returned fewer
  results than URLs were requested.
\<close>

definition batch_failed :: "error + bytes list \<Rightarrow> nat \<Rightarrow> bool" where
  "batch_failed result requested =
     (case result of Inl e \<Rightarrow> True | Inr tiles \<Rightarrow> length tiles < requested)"

section \<open>Grid equirectangular engine\<close>

text \<open>
  \<^verbatim>\<open>Size(x, y)\<close> and \<^verbatim>\<open>Tile(x, y, url)\<close> are the dataclasses of
  \<^verbatim>\<open>streetlevel/dataclasses.py\<close>; of \<^verbatim>\<open>StreetViewPanorama\<close> the engine reads
  \<^verbatim>\<open>id\<close>, \<^verbatim>\<open>image_sizes\<close> and \<^verbatim>\<open>tile_size\<close>, the last two of which are
  \<^verbatim>\<open>None\<close> on a panorama that came from a coverage tile. The other fields are the
  extension part of the record.
\<close>

record Size =
  size_x :: int
  size_y :: int

record Tile =
  tile_x :: int
  tile_y :: int
  tile_url :: string

record StreetViewPanorama =
  id_sv :: string
  image_sizes :: "Size list option"
  tile_size :: "Size option"

text \<open>Python's \<^verbatim>\<open>str\<close> of an integer, which is what \<^verbatim>\<open>{1:}\<close> formats.\<close>

definition digit_char :: "nat \<Rightarrow> char" where
  "digit_char d =
     (if d = 0 then CHR ''0'' else if d = 1 then CHR ''1'' else if d = 2 then CHR ''2''
      else if d = 3 then CHR ''3'' else if d = 4 then CHR ''4'' else if d = 5 then CHR ''5''
      else if d = 6 then CHR ''6'' else if d = 7 then CHR ''7'' else if d = 8 then CHR ''8''
      else CHR ''9'')"

fun str_nat :: "nat \<Rightarrow> string" where
  "str_nat n = (if n < 10 then [digit_char n] else str_nat (n div 10) @ [digit_char (n mod 10)])"

declare str_nat.simps [simp del]

definition str_int :: "int \<Rightarrow> string" where
  "str_int i = (if i < 0 then CHR ''-'' # str_nat (nat (- i)) else str_nat (nat i))"

text \<open>
  The two URL templates with \<^verbatim>\<open>str.format(pano.id, x, y, zoom)\<close> applied:
  \<^verbatim>\<open>{0:}\<close> is the id, \<^verbatim>\<open>{1:}\<close> is x, \<^verbatim>\<open>{2:}\<close> is y and \<^verbatim>\<open>{3:}\<close> is the zoom.
\<close>

definition IMAGE_URL :: "string \<Rightarrow> int \<Rightarrow> int \<Rightarrow> int \<Rightarrow> string" where
  "IMAGE_URL a0 a1 a2 a3 =
     ''https://cbk0.google.com/cbk?output=tile&panoid='' @ a0 @ ''&zoom='' @ str_int a3
       @ ''&x='' @ str_int a1 @ ''&y='' @ str_int a2"

definition THIRD_PARTY_IMAGE_URL :: "string \<Rightarrow> int \<Rightarrow> int \<Rightarrow> int \<Rightarrow> string" where
  "THIRD_PARTY_IMAGE_URL a0 a1 a2 a3 =
     ''https://lh3.ggpht.com/p/'' @ a0 @ ''=x'' @ str_int a1 @ ''-y'' @ str_int a2
       @ ''-z'' @ str_int a3"

text \<open>
  Python list indexing with an integer: a negative index counts from the end, and an
  index out of range raises \<^verbatim>\<open>IndexError\<close>.
\<close>

definition py_index :: "'a list \<Rightarrow> int \<Rightarrow> error + 'a" where
  "py_index xs i =
     (if 0 \<le> i \<and> i < int (length xs) then Inr (xs ! nat i)
      else if - int (length xs) \<le> i \<and> i < 0 then Inr (xs ! nat (int (length xs) + i))
      else Inl IndexError)"

text \<open>
  \<^verbatim>\<open>math.ceil(a / b)\<close> on integers. The quotient \<^verbatim>\<open>a / b\<close> is a double: Python
  raises \<^verbatim>\<open>ZeroDivisionError\<close> for \<open>b = 0\<close> and otherwise rounds the exact quotient to
  the nearest double. For operands of magnitude below \<open>2^53\<close> the rounding does not
  change the ceiling: a quotient that is not an integer differs from every integer by at
  least \<open>1 / |b|\<close>, which is more than \<open>|a / b| * 2^-53\<close>, half a unit in the last place
  of the quotient; so the ceiling is the exact one. For larger operands the rounded
  quotient can reach an integer (the ceiling of \<open>(2^60 + 1) / 2^60\<close> is computed as 1), or
  the division can raise \<^verbatim>\<open>OverflowError\<close>; what the double arithmetic returns there
  is the parameter \<open>float_ceil\<close>, with \<open>None\<close> for the overflow.

  \<open>range(n)\<close> is empty for \<open>n \<le> 0\<close>.
\<close>

definition math_ceil_div :: "(int \<Rightarrow> int \<Rightarrow> int option) \<Rightarrow> int \<Rightarrow> int \<Rightarrow> error + int" where
  "math_ceil_div float_ceil a b =
     (if b = 0 then Inl ZeroDivisionError
      else if \<bar>a\<bar> < 2 ^ 53 \<and> \<bar>b\<bar> < 2 ^ 53 then Inr (- ((- a) div b))
      else (case float_ceil a b of None \<Rightarrow> Inl OverflowError | Some c \<Rightarrow> Inr c))"

definition py_range :: "int \<Rightarrow> int list" where
  "py_range n = map int [0..<nat n]"

text \<open>
  \<^verbatim>\<open>_generate_tile_list(pano, zoom)\<close> of \<^verbatim>\<open>streetview.py\<close>. The predicate
  \<^verbatim>\<open>is_third_party_panoid\<close> (\<^verbatim>\<open>streetview/util.py\<close>, not among the sources) is a
  parameter. \<^verbatim>\<open>itertools.product(range(cols), range(rows))\<close> varies its last component
  fastest, as \<open>List.product\<close> does.
\<close>

definition streetview_generate_tile_list ::
    "(int \<Rightarrow> int \<Rightarrow> int option) \<Rightarrow> (string \<Rightarrow> bool) \<Rightarrow> 'a StreetViewPanorama_scheme \<Rightarrow> int
      \<Rightarrow> error + Tile list" where
  "streetview_generate_tile_list float_ceil is_third_party_panoid pano zoom =
     (case image_sizes pano of
        None \<Rightarrow> Inl TypeError
      | Some sizes \<Rightarrow>
     (case py_index sizes zoom of
        Inl e \<Rightarrow> Inl e
      | Inr img_size \<Rightarrow>
     (case tile_size pano of
        None \<Rightarrow> Inl AttributeError
      | Some ts \<Rightarrow>
          let tile_width = size_x ts;
              tile_height = size_y ts
          in
     (case math_ceil_div float_ceil (size_x img_size) tile_width of
        Inl e \<Rightarrow> Inl e
      | Inr cols \<Rightarrow>
     (case math_ceil_div float_ceil (size_y img_size) tile_height of
        Inl e \<Rightarrow> Inl e
      | Inr rows \<Rightarrow>
          let url_to_use = (if is_third_party_panoid (id_sv pano)
                            then THIRD_PARTY_IMAGE_URL else IMAGE_URL);
              coords = List.product (py_range cols) (py_range rows)
          in Inr (map (\<lambda>(x, y).
                    \<lparr>tile_x = x, tile_y = y,
                     tile_url = url_to_use (id_sv pano) x y zoom\<rparr>)
                  coords))))))"

text \<open>
  \<^verbatim>\<open>_validate_get_panorama_params\<close>: \<^verbatim>\<open>not pano.image_sizes\<close> holds for \<^verbatim>\<open>None\<close> and
  for the empty list.
\<close>

definition validate_get_panorama_params ::
    "'a StreetViewPanorama_scheme \<Rightarrow> int \<Rightarrow> error + int" where
  "validate_get_panorama_params pano zoom =
     (case image_sizes pano of
        None \<Rightarrow> Inl InvalidState
      | Some sizes \<Rightarrow>
          if sizes = [] then Inl InvalidState
          else Inr (max 0 (min zoom (int (length sizes) - 1))))"

text \<open>
  Modelled from the spec: \<^verbatim>\<open>get_equirectangular_panorama\<close> is imported from
  \<^verbatim>\<open>streetlevel/util.py\<close>, which is not among the sources. The spec (4.2, 6, 7, 8):
  all tiles are fetched in one batch, in request order; a fetch that fails, or that
  returns fewer results than URLs were requested, aborts the whole reconstruction; each
  decoded tile is pasted at the pixel offset \<open>(x * tile_width, y * tile_height)\<close> into a
  canvas of the declared \<open>(width, height)\<close>; a decode failure propagates. The download
  collaborator is the parameter \<open>fetch\<close> and the decoding is \<open>image_open\<close>, as in the
  cubemap engine.
\<close>

fun paste_tiles ::
    "(bytes \<Rightarrow> bool) \<Rightarrow> Size \<Rightarrow> img \<Rightarrow> (Tile \<times> bytes) list \<Rightarrow> error + img" where
  "paste_tiles decodable tsize canvas [] = Inr canvas"
| "paste_tiles decodable tsize canvas ((tile, b) # rest) =
     (case image_open decodable b of
        Inl e \<Rightarrow> Inl e
      | Inr tile_img \<Rightarrow>
          paste_tiles decodable tsize
            (Paste canvas tile_img
               (nat (tile_x tile * size_x tsize)) (nat (tile_y tile * size_y tsize)))
            rest)"

definition get_equirectangular_panorama ::
    "(string list \<Rightarrow> error + bytes list) \<Rightarrow> (bytes \<Rightarrow> bool) \<Rightarrow> int \<Rightarrow> int \<Rightarrow> Size
      \<Rightarrow> Tile list \<Rightarrow> error + img" where
  "get_equirectangular_panorama fetch decodable width height tsize tiles =
     (case fetch (map tile_url tiles) of
        Inl e \<Rightarrow> Inl e
      | Inr images \<Rightarrow>
          if length images < length tiles then Inl FetchFailure
          else paste_tiles decodable tsize (New (nat width) (nat height)) (zip tiles images))"

text \<open>
  \<^verbatim>\<open>get_panorama\<close> of \<^verbatim>\<open>streetview.py\<close>. The arguments of the call are evaluated
  from left to right: the two reads of \<^verbatim>\<open>pano.image_sizes[zoom]\<close>, then
  \<^verbatim>\<open>pano.tile_size\<close>, then \<^verbatim>\<open>_generate_tile_list(pano, zoom)\<close>.
  \<^verbatim>\<open>get_panorama_async\<close> is the same sequence of calls.
\<close>

definition streetview_get_panorama ::
    "(string list \<Rightarrow> error + bytes list) \<Rightarrow> (bytes \<Rightarrow> bool) \<Rightarrow> (int \<Rightarrow> int \<Rightarrow> int option)
      \<Rightarrow> (string \<Rightarrow> bool) \<Rightarrow> 'a StreetViewPanorama_scheme \<Rightarrow> int \<Rightarrow> error + img" where
  "streetview_get_panorama fetch decodable float_ceil is_third_party_panoid pano zoom =
     (case validate_get_panorama_params pano zoom of
        Inl e \<Rightarrow> Inl e
      | Inr zoom \<Rightarrow>
     (case image_sizes pano of
        None \<Rightarrow> Inl TypeError
      | Some sizes \<Rightarrow>
     (case py_index sizes zoom of
        Inl e \<Rightarrow> Inl e
      | Inr img_size \<Rightarrow>
     (case streetview_generate_tile_list float_ceil is_third_party_panoid pano zoom of
        Inl e \<Rightarrow> Inl e
      | Inr tiles \<Rightarrow>
     (case tile_size pano of
        None \<Rightarrow> Inl AttributeError
      | Some ts \<Rightarrow>
          get_equirectangular_panorama fetch decodable
            (size_x img_size) (size_y img_size) ts tiles)))))"


section \<open>Sample inputs\<close>

text \<open>
  Concrete panoramas, tiles and download collaborators at which the theorems below are
  instantiated. \<open>sample_is_third_party\<close> is an arbitrary predicate on ids, chosen only
  so that both answers occur; \<open>failing_fetch\<close> raises for the batch of one cubemap face and
  \<open>silent_fetch\<close> returns no result for it, \<open>refusing_fetch\<close> raises for every batch,
  and \<open>short_fetch\<close> returns a single result whatever is requested. \<open>sample_decodable\<close>
  stands for an image library that decodes the byte strings starting with the JPEG marker
  \<open>FF D8\<close>, and \<open>no_float_ceil\<close> for double arithmetic that overflows on every operand
  beyond \<open>2^53\<close>; the sample sizes are far below that bound.
\<close>

abbreviation sample_sizes :: "Size list" where
  "sample_sizes \<equiv> [\<lparr>size_x = 512, size_y = 256\<rparr>, \<lparr>size_x = 1000, size_y = 500\<rparr>]"

abbreviation sample_tile_size :: Size where
  "sample_tile_size \<equiv> \<lparr>size_x = 256, size_y = 256\<rparr>"

abbreviation sample_pano :: "string \<Rightarrow> StreetViewPanorama" where
  "sample_pano panoid \<equiv>
     \<lparr>id_sv = panoid, image_sizes = Some sample_sizes, tile_size = Some sample_tile_size\<rparr>"

abbreviation pano_without_table :: StreetViewPanorama where
  "pano_without_table \<equiv> \<lparr>id_sv = ''abc'', image_sizes = None, tile_size = None\<rparr>"

abbreviation pano_with_empty_table :: StreetViewPanorama where
  "pano_with_empty_table \<equiv>
     \<lparr>id_sv = ''abc'', image_sizes = Some [], tile_size = Some sample_tile_size\<rparr>"

abbreviation sample_is_third_party :: "string \<Rightarrow> bool" where
  "sample_is_third_party \<equiv> \<lambda>panoid. panoid = ''xyz''"

abbreviation grid_tile :: "int \<Rightarrow> int \<Rightarrow> string \<Rightarrow> Tile" where
  "grid_tile x y u \<equiv> \<lparr>tile_x = x, tile_y = y, tile_url = u\<rparr>"

abbreviation cubemap_tile :: "string \<Rightarrow> nat \<Rightarrow> string \<Rightarrow> ss_tile" where
  "cubemap_tile f s u \<equiv> \<lparr>t_face = f, t_subdiv = s, t_url = u, t_image = None\<rparr>"

abbreviation sample_decodable :: "bytes \<Rightarrow> bool" where
  "sample_decodable \<equiv> \<lambda>b. take 2 b = [0xFF, 0xD8]"

abbreviation no_float_ceil :: "int \<Rightarrow> int \<Rightarrow> int option" where
  "no_float_ceil \<equiv> \<lambda>a b. None"

abbreviation good_fetch :: "string list \<Rightarrow> error + bytes list" where
  "good_fetch \<equiv> \<lambda>urls. Inr (map (\<lambda>u. [0xFF, 0xD8, 7]) urls)"

abbreviation short_fetch :: "string list \<Rightarrow> error + bytes list" where
  "short_fetch \<equiv> \<lambda>urls. Inr (take 1 (map (\<lambda>u. [0xFF, 0xD8, 7]) urls))"

abbreviation failing_fetch :: "string list \<Rightarrow> error + bytes list" where
  "failing_fetch \<equiv> \<lambda>urls.
     if urls = [''https://t.ssl.ak.tiles.virtualearth.net/tiles/hs000000000000001110.jpg?g=13716'']
     then Inl FetchFailure else Inr (map (\<lambda>u. [0xFF, 0xD8, 7]) urls)"

abbreviation zoom0_tiles :: "Tile list" where
  "zoom0_tiles \<equiv>
     [grid_tile 0 0 ''https://cbk0.google.com/cbk?output=tile&panoid=abc&zoom=0&x=0&y=0'',
      grid_tile 1 0 ''https://cbk0.google.com/cbk?output=tile&panoid=abc&zoom=0&x=1&y=0'']"

abbreviation first_party_tile :: Tile where
  "first_party_tile \<equiv>
     grid_tile 3 1 ''https://cbk0.google.com/cbk?output=tile&panoid=abc&zoom=1&x=3&y=1''"

abbreviation third_party_tile :: Tile where
  "third_party_tile \<equiv> grid_tile 3 1 ''https://lh3.ggpht.com/p/xyz=x3-y1-z1''"

abbreviation cubemap_pano :: StreetsidePanorama where
  "cubemap_pano \<equiv> \<lparr>id_ss = 5, max_zoom = 0\<rparr>"

abbreviation faces_before :: "(nat \<times> ss_tile list) list" where
  "faces_before \<equiv>
     [(0, [cubemap_tile ''01'' 0
            ''https://t.ssl.ak.tiles.virtualearth.net/tiles/hs000000000000001101.jpg?g=13716'']),
      (1, [cubemap_tile ''02'' 0
            ''https://t.ssl.ak.tiles.virtualearth.net/tiles/hs000000000000001102.jpg?g=13716'']),
      (2, [cubemap_tile ''03'' 0
            ''https://t.ssl.ak.tiles.virtualearth.net/tiles/hs000000000000001103.jpg?g=13716''])]"

abbreviation faces_after :: "(nat \<times> ss_tile list) list" where
  "faces_after \<equiv>
     [(4, [cubemap_tile ''11'' 0
            ''https://t.ssl.ak.tiles.virtualearth.net/tiles/hs000000000000001111.jpg?g=13716'']),
      (5, [cubemap_tile ''12'' 0
            ''https://t.ssl.ak.tiles.virtualearth.net/tiles/hs000000000000001112.jpg?g=13716''])]"

abbreviation failing_face :: "ss_tile list" where
  "failing_face \<equiv>
     [cubemap_tile ''10'' 0
        ''https://t.ssl.ak.tiles.virtualearth.net/tiles/hs000000000000001110.jpg?g=13716'']"

abbreviation fetched_tile :: "nat \<Rightarrow> ss_tile" where
  "fetched_tile i \<equiv>
     \<lparr>t_face = ''01'', t_subdiv = i, t_url = ''u'', t_image = Some [0xFF, 0xD8, of_nat i]\<rparr>"

abbreviation silent_fetch :: "string list \<Rightarrow> error + bytes list" where
  "silent_fetch \<equiv> \<lambda>urls.
     if urls = [''https://t.ssl.ak.tiles.virtualearth.net/tiles/hs000000000000001110.jpg?g=13716'']
     then Inr [] else Inr (map (\<lambda>u. [0xFF, 0xD8, 7]) urls)"

abbreviation refusing_fetch :: "string list \<Rightarrow> error + bytes list" where
  "refusing_fetch \<equiv> \<lambda>urls. Inl FetchFailure"
section \<open>Properties of the address generation\<close>

lemma base4_value_digit: "d < 4 \<Longrightarrow> base4_value (base4_digit d) = d"
  by (simp add: base4_value_def base4_digit_def)

lemma length_base4_fixed: "length (base4_fixed k n) = k"
  by (induction k arbitrary: n) simp_all

lemma from_base4_snoc: "from_base4 (s @ [c]) = 4 * from_base4 s + base4_value c"
  by (simp add: from_base4_def)

lemma from_base4_fixed: "n < 4 ^ k \<Longrightarrow> from_base4 (base4_fixed k n) = n"
proof (induction k arbitrary: n)
  case 0
  then show ?case by (simp add: from_base4_def)
next
  case (Suc k)
  from Suc.prems have "n div 4 < 4 ^ k" by (simp add: less_mult_imp_div_less mult.commute)
  with Suc.IH have "from_base4 (base4_fixed k (n div 4)) = n div 4" by blast
  then show ?case by (simp add: from_base4_snoc base4_value_digit)
qed

lemma base4_fixed_inj:
  assumes "a < 4 ^ k" and "b < 4 ^ k" and "base4_fixed k a = base4_fixed k b"
  shows "a = b"
proof -
  have "from_base4 (base4_fixed k a) = from_base4 (base4_fixed k b)"
    using assms(3) by simp
  then show ?thesis using assms(1,2) by (simp add: from_base4_fixed)
qed

lemma distinct_base4_fixed: "distinct (map (base4_fixed k) [0..<4 ^ k])"
proof -
  have "inj_on (base4_fixed k) (set [0..<4 ^ k])"
    by (rule inj_onI) (auto intro: base4_fixed_inj)
  then show ?thesis by (simp add: distinct_map)
qed

lemma base4_fixed_zero: "base4_fixed k 0 = replicate k CHR ''0''"
proof (induction k)
  case 0
  show ?case by simp
next
  case (Suc k)
  then show ?case
    by (simp add: base4_digit_def replicate_append_same)
qed

lemma length_to_base4: "n < 4 ^ Suc k \<Longrightarrow> length (to_base4 n) \<le> Suc k"
proof (induction k arbitrary: n)
  case 0
  then show ?case by (simp add: to_base4.simps [of n])
next
  case (Suc k)
  show ?case
  proof (cases "n < 4")
    case True
    then show ?thesis by (simp add: to_base4.simps [of n])
  next
    case False
    from Suc.prems have "n div 4 < 4 ^ Suc k"
      by (simp add: less_mult_imp_div_less mult.commute)
    with Suc.IH have "length (to_base4 (n div 4)) \<le> Suc k" by blast
    with False show ?thesis by (simp add: to_base4.simps [of n])
  qed
qed

lemma rjust_snoc:
  "length s \<le> k \<Longrightarrow> rjust (s @ [c]) (int (Suc k)) f = rjust s (int k) f @ [c]"
  by (simp add: rjust_def)

lemma rjust_to_base4:
  "n < 4 ^ Suc k \<Longrightarrow> rjust (to_base4 n) (int (Suc k)) CHR ''0'' = base4_fixed (Suc k) n"
proof (induction k arbitrary: n)
  case 0
  then show ?case by (simp add: to_base4.simps [of n] rjust_def)
next
  case (Suc k)
  show ?case
  proof (cases "n < 4")
    case True
    then have "rjust (to_base4 n) (int (Suc (Suc k))) CHR ''0''
                 = replicate (Suc k) CHR ''0'' @ [base4_digit n]"
      by (simp add: to_base4.simps [of n] rjust_def nat_add_distrib)
    moreover from True have "base4_fixed (Suc (Suc k)) n
                 = base4_fixed (Suc k) 0 @ [base4_digit n]"
      by simp
    ultimately show ?thesis by (simp only: base4_fixed_zero)
  next
    case False
    from Suc.prems have small: "n div 4 < 4 ^ Suc k"
      by (simp add: less_mult_imp_div_less mult.commute)
    then have len: "length (to_base4 (n div 4)) \<le> Suc k" by (rule length_to_base4)
    from False have "to_base4 n = to_base4 (n div 4) @ [base4_digit (n mod 4)]"
      by (simp add: to_base4.simps [of n])
    then have "rjust (to_base4 n) (int (Suc (Suc k))) CHR ''0''
                 = rjust (to_base4 (n div 4)) (int (Suc k)) CHR ''0'' @ [base4_digit (n mod 4)]"
      using len by (simp only: rjust_snoc)
    also have "\<dots> = base4_fixed (Suc k) (n div 4) @ [base4_digit (n mod 4)]"
      using Suc.IH [OF small] by simp
    finally show ?thesis by simp
  qed
qed

lemma rjust_to_base4_pos:
  assumes "0 < k" and "n < 4 ^ k"
  shows "rjust (to_base4 n) (int k) CHR ''0'' = base4_fixed k n"
proof -
  from assms(1) obtain j where "k = Suc j" by (cases k) auto
  with assms(2) show ?thesis using rjust_to_base4 [of n j] by simp
qed

lemma base4_fixed_unfold:
  "0 < k \<Longrightarrow> base4_fixed k n = base4_fixed (k - 1) (n div 4) @ [base4_digit (n mod 4)]"
  by (cases k) simp_all

lemma replicate_unfold: "0 < n \<Longrightarrow> replicate n x = x # replicate (n - 1) x"
  by (cases n) simp_all

text \<open>
  C1. For every panorama id below \<open>4^16\<close> and every zoom from 0 to 4,
  \<^verbatim>\<open>_generate_tile_list\<close> of the cubemap engine returns six faces, keyed 0..5 and
  carrying the two-digit base-4 codes of the face numbers 1..6. Each face holds \<open>4^zoom\<close>
  tiles, in ascending order of the subdivision index \<open>0, \<dots>, 4^zoom - 1\<close>, and the URL of
  a tile is the fixed prefix, the 16-digit base-4 id, the 2-digit face code, the
  \<open>zoom\<close>-digit base-4 subdivision code (empty at zoom 0) and the suffix
  \<^verbatim>\<open>.jpg?g=13716\<close>. The subdivision codes of a face are pairwise different.
\<close>

theorem streetside_tile_list_exact:
  assumes "panoid < 4 ^ 16" and "0 \<le> zoom" and "zoom \<le> 4"
  shows "streetside_generate_tile_list panoid zoom =
           Inr (map (\<lambda>face_id.
                  (face_id,
                   map (\<lambda>subdiv.
                          \<lparr>t_face = base4_fixed 2 (face_id + 1), t_subdiv = subdiv,
                           t_url = cubemap_tile_url panoid (face_id + 1) (nat zoom) subdiv,
                           t_image = None\<rparr>)
                       [0..<4 ^ nat zoom]))
                [0..<6])
         \<and> distinct (map (base4_fixed (nat zoom)) [0..<4 ^ nat zoom])"
proof -
  have pano: "rjust (to_base4 panoid) 16 CHR ''0'' = base4_fixed 16 panoid"
    using rjust_to_base4_pos [of 16 panoid] assms(1) by simp
  have face: "rjust (to_base4 (Suc f)) 2 CHR ''0'' = base4_fixed 2 (Suc f)" if "f < 6" for f
    using rjust_to_base4_pos [of 2 "Suc f"] that by simp
  have sub: "(if zoom < 1 then [] else rjust (to_base4 s) zoom CHR ''0'')
               = base4_fixed (nat zoom) s" if "s < 4 ^ nat zoom" for s
  proof (cases "zoom < 1")
    case True
    with assms(2) have "zoom = 0" by simp
    then show ?thesis by simp
  next
    case False
    then have "0 < nat zoom" by simp
    from rjust_to_base4_pos [OF this that] False show ?thesis by simp
  qed
  have "streetside_generate_tile_list panoid zoom =
           Inr (map (\<lambda>face_id.
                  (face_id,
                   map (\<lambda>subdiv.
                          \<lparr>t_face = base4_fixed 2 (face_id + 1), t_subdiv = subdiv,
                           t_url = cubemap_tile_url panoid (face_id + 1) (nat zoom) subdiv,
                           t_image = None\<rparr>)
                       [0..<4 ^ nat zoom]))
                [0..<6])"
    using assms(2,3)
    by (simp add: streetside_generate_tile_list_def Let_def pano cubemap_tile_url_def
          face sub cong: map_cong)
  then show ?thesis by (simp add: distinct_base4_fixed)
qed

theorem streetside_tile_list_exact_witness:
  "(1234567::nat) < 4 ^ 16 \<and> (0::int) \<le> 1 \<and> (1::int) \<le> 4 \<and>
   streetside_generate_tile_list 1234567 1 = Inr [
       (0, [cubemap_tile ''01'' 0
           ''https://t.ssl.ak.tiles.virtualearth.net/tiles/hs0000010231122013010.jpg?g=13716'',
         cubemap_tile ''01'' 1
           ''https://t.ssl.ak.tiles.virtualearth.net/tiles/hs0000010231122013011.jpg?g=13716'',
         cubemap_tile ''01'' 2
           ''https://t.ssl.ak.tiles.virtualearth.net/tiles/hs0000010231122013012.jpg?g=13716'',
         cubemap_tile ''01'' 3
           ''https://t.ssl.ak.tiles.virtualearth.net/tiles/hs0000010231122013013.jpg?g=13716'']),
       (1, [cubemap_tile ''02'' 0
           ''https://t.ssl.ak.tiles.virtualearth.net/tiles/hs0000010231122013020.jpg?g=13716'',
         cubemap_tile ''02'' 1
           ''https://t.ssl.ak.tiles.virtualearth.net/tiles/hs0000010231122013021.jpg?g=13716'',
         cubemap_tile ''02'' 2
           ''https://t.ssl.ak.tiles.virtualearth.net/tiles/hs0000010231122013022.jpg?g=13716'',
         cubemap_tile ''02'' 3
           ''https://t.ssl.ak.tiles.virtualearth.net/tiles/hs0000010231122013023.jpg?g=13716'']),
       (2, [cubemap_tile ''03'' 0
           ''https://t.ssl.ak.tiles.virtualearth.net/tiles/hs0000010231122013030.jpg?g=13716'',
         cubemap_tile ''03'' 1
           ''https://t.ssl.ak.tiles.virtualearth.net/tiles/hs0000010231122013031.jpg?g=13716'',
         cubemap_tile ''03'' 2
           ''https://t.ssl.ak.tiles.virtualearth.net/tiles/hs0000010231122013032.jpg?g=13716'',
         cubemap_tile ''03'' 3
           ''https://t.ssl.ak.tiles.virtualearth.net/tiles/hs0000010231122013033.jpg?g=13716'']),
       (3, [cubemap_tile ''10'' 0
           ''https://t.ssl.ak.tiles.virtualearth.net/tiles/hs0000010231122013100.jpg?g=13716'',
         cubemap_tile ''10'' 1
           ''https://t.ssl.ak.tiles.virtualearth.net/tiles/hs0000010231122013101.jpg?g=13716'',
         cubemap_tile ''10'' 2
           ''https://t.ssl.ak.tiles.virtualearth.net/tiles/hs0000010231122013102.jpg?g=13716'',
         cubemap_tile ''10'' 3
           ''https://t.ssl.ak.tiles.virtualearth.net/tiles/hs0000010231122013103.jpg?g=13716'']),
       (4, [cubemap_tile ''11'' 0
           ''https://t.ssl.ak.tiles.virtualearth.net/tiles/hs0000010231122013110.jpg?g=13716'',
         cubemap_tile ''11'' 1
           ''https://t.ssl.ak.tiles.virtualearth.net/tiles/hs0000010231122013111.jpg?g=13716'',
         cubemap_tile ''11'' 2
           ''https://t.ssl.ak.tiles.virtualearth.net/tiles/hs0000010231122013112.jpg?g=13716'',
         cubemap_tile ''11'' 3
           ''https://t.ssl.ak.tiles.virtualearth.net/tiles/hs0000010231122013113.jpg?g=13716'']),
       (5, [cubemap_tile ''12'' 0
           ''https://t.ssl.ak.tiles.virtualearth.net/tiles/hs0000010231122013120.jpg?g=13716'',
         cubemap_tile ''12'' 1
           ''https://t.ssl.ak.tiles.virtualearth.net/tiles/hs0000010231122013121.jpg?g=13716'',
         cubemap_tile ''12'' 2
           ''https://t.ssl.ak.tiles.virtualearth.net/tiles/hs0000010231122013122.jpg?g=13716'',
         cubemap_tile ''12'' 3
           ''https://t.ssl.ak.tiles.virtualearth.net/tiles/hs0000010231122013123.jpg?g=13716''])]"
proof -
  have small: "(1234567::nat) < 4 ^ 16" by simp
  have spec_side:
    "map (\<lambda>face_id.
            (face_id,
             map (\<lambda>subdiv.
                    \<lparr>t_face = base4_fixed 2 (face_id + 1), t_subdiv = subdiv,
                     t_url = cubemap_tile_url 1234567 (face_id + 1) (nat 1) subdiv,
                     t_image = None\<rparr>)
                 [0..<4 ^ nat 1]))
         [0..<6] = [
       (0, [cubemap_tile ''01'' 0
           ''https://t.ssl.ak.tiles.virtualearth.net/tiles/hs0000010231122013010.jpg?g=13716'',
         cubemap_tile ''01'' 1
           ''https://t.ssl.ak.tiles.virtualearth.net/tiles/hs0000010231122013011.jpg?g=13716'',
         cubemap_tile ''01'' 2
           ''https://t.ssl.ak.tiles.virtualearth.net/tiles/hs0000010231122013012.jpg?g=13716'',
         cubemap_tile ''01'' 3
           ''https://t.ssl.ak.tiles.virtualearth.net/tiles/hs0000010231122013013.jpg?g=13716'']),
       (1, [cubemap_tile ''02'' 0
           ''https://t.ssl.ak.tiles.virtualearth.net/tiles/hs0000010231122013020.jpg?g=13716'',
         cubemap_tile ''02'' 1
           ''https://t.ssl.ak.tiles.virtualearth.net/tiles/hs0000010231122013021.jpg?g=13716'',
         cubemap_tile ''02'' 2
           ''https://t.ssl.ak.tiles.virtualearth.net/tiles/hs0000010231122013022.jpg?g=13716'',
         cubemap_tile ''02'' 3
           ''https://t.ssl.ak.tiles.virtualearth.net/tiles/hs0000010231122013023.jpg?g=13716'']),
       (2, [cubemap_tile ''03'' 0
           ''https://t.ssl.ak.tiles.virtualearth.net/tiles/hs0000010231122013030.jpg?g=13716'',
         cubemap_tile ''03'' 1
           ''https://t.ssl.ak.tiles.virtualearth.net/tiles/hs0000010231122013031.jpg?g=13716'',
         cubemap_tile ''03'' 2
           ''https://t.ssl.ak.tiles.virtualearth.net/tiles/hs0000010231122013032.jpg?g=13716'',
         cubemap_tile ''03'' 3
           ''https://t.ssl.ak.tiles.virtualearth.net/tiles/hs0000010231122013033.jpg?g=13716'']),
       (3, [cubemap_tile ''10'' 0
           ''https://t.ssl.ak.tiles.virtualearth.net/tiles/hs0000010231122013100.jpg?g=13716'',
         cubemap_tile ''10'' 1
           ''https://t.ssl.ak.tiles.virtualearth.net/tiles/hs0000010231122013101.jpg?g=13716'',
         cubemap_tile ''10'' 2
           ''https://t.ssl.ak.tiles.virtualearth.net/tiles/hs0000010231122013102.jpg?g=13716'',
         cubemap_tile ''10'' 3
           ''https://t.ssl.ak.tiles.virtualearth.net/tiles/hs0000010231122013103.jpg?g=13716'']),
       (4, [cubemap_tile ''11'' 0
           ''https://t.ssl.ak.tiles.virtualearth.net/tiles/hs0000010231122013110.jpg?g=13716'',
         cubemap_tile ''11'' 1
           ''https://t.ssl.ak.tiles.virtualearth.net/tiles/hs0000010231122013111.jpg?g=13716'',
         cubemap_tile ''11'' 2
           ''https://t.ssl.ak.tiles.virtualearth.net/tiles/hs0000010231122013112.jpg?g=13716'',
         cubemap_tile ''11'' 3
           ''https://t.ssl.ak.tiles.virtualearth.net/tiles/hs0000010231122013113.jpg?g=13716'']),
       (5, [cubemap_tile ''12'' 0
           ''https://t.ssl.ak.tiles.virtualearth.net/tiles/hs0000010231122013120.jpg?g=13716'',
         cubemap_tile ''12'' 1
           ''https://t.ssl.ak.tiles.virtualearth.net/tiles/hs0000010231122013121.jpg?g=13716'',
         cubemap_tile ''12'' 2
           ''https://t.ssl.ak.tiles.virtualearth.net/tiles/hs0000010231122013122.jpg?g=13716'',
         cubemap_tile ''12'' 3
           ''https://t.ssl.ak.tiles.virtualearth.net/tiles/hs0000010231122013123.jpg?g=13716''])]"
    by (simp add: cubemap_tile_url_def base4_fixed_unfold base4_digit_def upt_rec)
  from streetside_tile_list_exact [OF small, of 1] spec_side show ?thesis by simp
qed

text \<open>
  C4 (as amended). \<^verbatim>\<open>_generate_tile_list\<close> of the cubemap engine fails with the
  InvalidZoom error exactly when the zoom is greater than 4, and it returns a tile list for
  every zoom from 0 to 4. The guard of the source is \<^verbatim>\<open>if zoom > 4\<close> alone.
\<close>

theorem streetside_invalid_zoom_iff:
  "(streetside_generate_tile_list panoid zoom = Inl InvalidZoom \<longleftrightarrow> 4 < zoom)
   \<and> (0 \<le> zoom \<and> zoom \<le> 4 \<longrightarrow>
        (\<exists>faces. streetside_generate_tile_list panoid zoom = Inr faces))"
  by (simp add: streetside_generate_tile_list_def Let_def)

theorem streetside_invalid_zoom_iff_witness:
  "(0::int) \<le> 2 \<and> (2::int) \<le> 4
   \<and> (\<exists>faces. streetside_generate_tile_list 7 2 = Inr faces)
   \<and> streetside_generate_tile_list 7 2 \<noteq> Inl InvalidZoom
   \<and> (4::int) < 5 \<and> streetside_generate_tile_list 7 5 = Inl InvalidZoom"
  using streetside_invalid_zoom_iff [of 7 2] streetside_invalid_zoom_iff [of 7 5]
  by simp

text \<open>
  C4 as stated also promises the InvalidZoom error for a negative zoom. There the guard
  does not fire: \<^verbatim>\<open>pow(4, -1)\<close> is the float 0.25 and \<^verbatim>\<open>range(0, 0.25)\<close> raises
  \<^verbatim>\<open>TypeError\<close>, which is not the InvalidZoom error.
\<close>

theorem streetside_negative_zoom_counterexample:
  "(-1::int) < 0
   \<and> streetside_generate_tile_list 7 (-1) = Inl TypeError
   \<and> streetside_generate_tile_list 7 (-1) \<noteq> Inl InvalidZoom"
  by (simp add: streetside_generate_tile_list_def)


section \<open>Properties of the list splitting\<close>

lemma split_list_pos:
  "0 < s \<Longrightarrow>
   split_list l s =
     Inr (map (\<lambda>j. take (nat s) (drop (j * nat s) l)) [0..<(length l + nat s - 1) div nat s])"
  by (simp add: split_list_def py_range_step_def comp_def)

lemma concat_chunks: "concat (map (\<lambda>j. take n (drop (j * n) l)) [0..<m]) = take (m * n) l"
proof (induction m)
  case 0
  show ?case by simp
next
  case (Suc m)
  have "take (m * n) l @ take n (drop (m * n) l) = take (m * n + n) l"
    by (simp add: take_add)
  with Suc show ?case by (simp add: add.commute)
qed

lemma chunk_count_covers:
  assumes "0 < (n::nat)"
  shows "len \<le> ((len + n - 1) div n) * n"
proof -
  have "len + n - 1 = ((len + n - 1) div n) * n + (len + n - 1) mod n"
    by simp
  moreover have "(len + n - 1) mod n < n" using assms by simp
  ultimately show ?thesis by linarith
qed

lemma chunk_full_before_last:
  assumes "0 < (n::nat)" and "Suc i < (len + n - 1) div n"
  shows "Suc i * n \<le> len"
proof -
  from assms(2) have "Suc (Suc i) \<le> (len + n - 1) div n" by simp
  then have "Suc (Suc i) * n \<le> ((len + n - 1) div n) * n"
    by (rule mult_le_mono1)
  also have "\<dots> \<le> len + n - 1" by simp
  finally have "Suc i * n + n \<le> len + n - 1" by simp
  with assms(1) show ?thesis by linarith
qed

lemma chunk_nonempty:
  assumes "0 < (n::nat)" and "i < (len + n - 1) div n"
  shows "i * n < len"
proof -
  from assms(2) have "Suc i \<le> (len + n - 1) div n" by simp
  then have "Suc i * n \<le> ((len + n - 1) div n) * n"
    by (rule mult_le_mono1)
  also have "\<dots> \<le> len + n - 1" by simp
  finally have "i * n + n \<le> len + n - 1" by simp
  with assms(1) show ?thesis by linarith
qed

lemma quarter_count: "0 < (q::nat) \<Longrightarrow> (4 * q + q - 1) div q = 4"
  by (rule div_nat_eqI) auto

lemma upt_four: "[0..<(4::nat)] = [0, 1, 2, 3]"
  by (simp add: upt_rec)

lemma split_list_quarters:
  assumes "length l = 4 * q" and "0 < q"
  shows "split_list l (int (length l) div 4) =
           Inr [take q l, take q (drop q l), take q (drop (2 * q) l), take q (drop (3 * q) l)]"
proof -
  have sz: "int (length l) div 4 = int q" using assms(1) by simp
  have cnt: "(length l + q - 1) div q = 4"
    unfolding assms(1) using assms(2) by (rule quarter_count)
  have "split_list l (int q) =
          Inr (map (\<lambda>j. take (nat (int q)) (drop (j * nat (int q)) l))
                 [0..<(length l + nat (int q) - 1) div nat (int q)])"
    by (rule split_list_pos) (simp add: assms(2))
  then have "split_list l (int q) = Inr (map (\<lambda>j. take q (drop (j * q) l)) [0..<4])"
    by (simp only: nat_int cnt)
  then show ?thesis
    unfolding sz upt_four by (simp add: mult.commute)
qed

lemma quarters_append:
  assumes "length l = 4 * q"
  shows "take q l @ take q (drop q l) @ take q (drop (2 * q) l) @ take q (drop (3 * q) l) = l"
proof -
  have "concat (map (\<lambda>j. take q (drop (j * q) l)) [0..<4]) = take (4 * q) l"
    by (rule concat_chunks)
  then show ?thesis
    unfolding upt_four using assms by (simp add: mult.commute)
qed

text \<open>
  C9. For every list and every positive chunk size \<open>s\<close>, \<^verbatim>\<open>_split_list\<close> returns chunks
  whose concatenation, in order, is the list itself; every chunk but the last has length
  exactly \<open>s\<close>, and no chunk is empty or longer than \<open>s\<close>. For a face of \<open>N = 4^k\<close> tiles with
  \<open>k \<ge> 1\<close>, the split with \<open>N // 4\<close> as done by \<^verbatim>\<open>_stitch_face\<close> gives exactly four
  sublists, each of length \<open>N / 4\<close>.
\<close>

theorem split_list_partition:
  "(0 < s \<longrightarrow>
      (\<exists>chunks. split_list l s = Inr chunks
         \<and> concat chunks = l
         \<and> (\<forall>i. Suc i < length chunks \<longrightarrow> length (chunks ! i) = nat s)
         \<and> (\<forall>c \<in> set chunks. c \<noteq> [] \<and> length c \<le> nat s)))
   \<and> (1 \<le> k \<and> length l = 4 ^ k \<longrightarrow>
      (\<exists>a b c d. split_list l (int (length l) div 4) = Inr [a, b, c, d]
         \<and> a @ b @ c @ d = l
         \<and> length a = 4 ^ (k - 1) \<and> length b = 4 ^ (k - 1)
         \<and> length c = 4 ^ (k - 1) \<and> length d = 4 ^ (k - 1)))"
proof (intro conjI impI)
  assume pos: "0 < s"
  define n where "n = nat s"
  define m where "m = (length l + n - 1) div n"
  define chunks where "chunks = map (\<lambda>j. take n (drop (j * n) l)) [0..<m]"
  from pos have n_pos: "0 < n" by (simp add: n_def)
  have res: "split_list l s = Inr chunks"
    using pos by (simp add: split_list_pos chunks_def m_def n_def)
  have "concat chunks = take (m * n) l"
    by (simp add: chunks_def concat_chunks)
  moreover have "length l \<le> m * n"
    unfolding m_def using n_pos by (rule chunk_count_covers)
  ultimately have cat: "concat chunks = l" by simp
  have full: "length (chunks ! i) = nat s" if "Suc i < length chunks" for i
  proof -
    from that have "Suc i < (length l + n - 1) div n" by (simp add: chunks_def m_def)
    with n_pos have "Suc i * n \<le> length l" by (rule chunk_full_before_last)
    then have "n \<le> length l - i * n" by simp
    with that show ?thesis by (simp add: chunks_def n_def min_def)
  qed
  have each: "c \<noteq> [] \<and> length c \<le> nat s" if "c \<in> set chunks" for c
  proof -
    from that obtain j where j: "j < m" and c: "c = take n (drop (j * n) l)"
      by (auto simp: chunks_def)
    from j have "j < (length l + n - 1) div n" by (simp add: m_def)
    with n_pos have "j * n < length l" by (rule chunk_nonempty)
    with n_pos c show ?thesis by (simp add: n_def)
  qed
  from res cat full each
  show "\<exists>chunks. split_list l s = Inr chunks
         \<and> concat chunks = l
         \<and> (\<forall>i. Suc i < length chunks \<longrightarrow> length (chunks ! i) = nat s)
         \<and> (\<forall>c \<in> set chunks. c \<noteq> [] \<and> length c \<le> nat s)"
    by blast
next
  assume "1 \<le> k \<and> length l = 4 ^ k"
  then obtain j where k: "k = Suc j" and len: "length l = 4 * 4 ^ j"
    by (cases k) auto
  define q :: nat where "q = 4 ^ j"
  have q_pos: "0 < q" by (simp add: q_def)
  from len have len': "length l = 4 * q" by (simp add: q_def)
  from len' q_pos
  have "split_list l (int (length l) div 4) =
          Inr [take q l, take q (drop q l), take q (drop (2 * q) l), take q (drop (3 * q) l)]"
    by (rule split_list_quarters)
  moreover from len'
  have "take q l @ take q (drop q l) @ take q (drop (2 * q) l) @ take q (drop (3 * q) l) = l"
    by (rule quarters_append)
  moreover have "length (take q l) = 4 ^ (k - 1)" "length (take q (drop q l)) = 4 ^ (k - 1)"
    "length (take q (drop (2 * q) l)) = 4 ^ (k - 1)"
    "length (take q (drop (3 * q) l)) = 4 ^ (k - 1)"
    using len' by (simp_all add: k q_def)
  ultimately
  show "\<exists>a b c d. split_list l (int (length l) div 4) = Inr [a, b, c, d]
         \<and> a @ b @ c @ d = l
         \<and> length a = 4 ^ (k - 1) \<and> length b = 4 ^ (k - 1)
         \<and> length c = 4 ^ (k - 1) \<and> length d = 4 ^ (k - 1)"
    by blast
qed

theorem split_list_partition_witness:
  "(0::int) < 3
   \<and> split_list [1, 2, 3, 4, 5, 6, 7 :: nat] 3 = Inr [[1, 2, 3], [4, 5, 6], [7]]
   \<and> (1::nat) \<le> 1 \<and> length [10, 20, 30, 40 :: nat] = 4 ^ 1
   \<and> split_list [10, 20, 30, 40 :: nat] (int (length [10, 20, 30, 40 :: nat]) div 4)
       = Inr [[10], [20], [30], [40]]"
proof -
  have a: "split_list [1, 2, 3, 4, 5, 6, 7 :: nat] 3 = Inr [[1, 2, 3], [4, 5, 6], [7]]"
    by (simp add: split_list_def py_range_step_def upt_rec)
  have b: "split_list [10, 20, 30, 40 :: nat] (int (length [10, 20, 30, 40 :: nat]) div 4)
             = Inr [[10], [20], [30], [40]]"
    by (simp add: split_list_def py_range_step_def upt_rec)
  from split_list_partition [of 3 "[1, 2, 3, 4, 5, 6, 7 :: nat]" 1] a
  have "concat [[1, 2, 3], [4, 5, 6], [7 :: nat]] = [1, 2, 3, 4, 5, 6, 7]" by simp
  with a b show ?thesis by simp
qed

section \<open>Properties of the face stitching\<close>

lemma isqrt_below_square: "r \<le> m \<Longrightarrow> isqrt_below m (r * r) = r"
proof (induction m)
  case 0
  then show ?case by simp
next
  case (Suc m)
  show ?case
  proof (cases "Suc m * Suc m \<le> r * r")
    case True
    have "Suc m \<le> r"
    proof (rule ccontr)
      assume "\<not> Suc m \<le> r"
      then have less: "r < Suc m" by simp
      from less less have "r * r < Suc m * Suc m" by (rule mult_strict_mono') simp_all
      with True show False by simp
    qed
    with Suc.prems have "r = Suc m" by simp
    with True show ?thesis by simp
  next
    case False
    have "r \<le> m"
    proof (rule ccontr)
      assume "\<not> r \<le> m"
      with Suc.prems have "r = Suc m" by simp
      with False show False by simp
    qed
    with Suc.IH False show ?thesis by simp
  qed
qed

lemma isqrt_square: "isqrt (r * r) = r"
proof -
  have "r \<le> r * r" by (cases r) simp_all
  then show ?thesis unfolding isqrt_def by (rule isqrt_below_square)
qed

lemma isqrt_power_of_four: "isqrt (4 ^ k) = 2 ^ k"
proof -
  have "(4::nat) ^ k = 2 ^ k * 2 ^ k"
    by (simp add: power_mult_distrib [symmetric])
  then show ?thesis by (simp only: isqrt_square)
qed

lemma stitch_four_fetched:
  assumes "length face = 4" and "\<forall>t \<in> set face. \<exists>b. t_image t = Some b \<and> decodable b"
  shows "\<exists>b0 b1 b2 b3.
           map t_image face = [Some b0, Some b1, Some b2, Some b3]
         \<and> stitch_four decodable face =
             Inr (Paste (Paste (Paste (Paste (New 512 512)
                    (Decoded b0) 0 0)
                    (Decoded b1) 256 0)
                    (Decoded b2) 0 256)
                    (Decoded b3) 256 256)"
proof -
  from assms(1) obtain t0 t1 t2 t3 where face: "face = [t0, t1, t2, t3]"
    by (auto simp: length_Suc_conv eval_nat_numeral)
  with assms(2) obtain b0 b1 b2 b3
    where b: "t_image t0 = Some b0" "t_image t1 = Some b1"
             "t_image t2 = Some b2" "t_image t3 = Some b3"
      and d: "decodable b0" "decodable b1" "decodable b2" "decodable b3"
    by auto
  have "enumerate 0 [t0, t1, t2, t3] = [(0, t0), (1, t1), (2, t2), (3, t3)]"
    by (simp add: enumerate_eq_zip upt_four)
  then have "stitch_four decodable face =
               Inr (Paste (Paste (Paste (Paste (New 512 512)
                      (Decoded b0) 0 0)
                      (Decoded b1) 256 0)
                      (Decoded b2) 0 256)
                      (Decoded b3) 256 256)"
    by (simp add: stitch_four_def face b d image_open_def TILE_SIZE_def)
  with face b show ?thesis by simp
qed

lemma stitch_face_quarters:
  assumes len: "length face = 4 * q" and big: "1 < q"
    and q0: "stitch_face decodable (take q face) = Inr q0"
    and q1: "stitch_face decodable (take q (drop q face)) = Inr q1"
    and q2: "stitch_face decodable (take q (drop (2 * q) face)) = Inr q2"
    and q3: "stitch_face decodable (take q (drop (3 * q) face)) = Inr q3"
  shows "stitch_face decodable face =
           Inr (Paste (Paste (Paste (Paste
                  (New ((isqrt (length face) div 2) * TILE_SIZE * 2)
                       ((isqrt (length face) div 2) * TILE_SIZE * 2))
                  q0 0 0)
                  q1 ((isqrt (length face) div 2) * TILE_SIZE) 0)
                  q2 0 ((isqrt (length face) div 2) * TILE_SIZE))
                  q3 ((isqrt (length face) div 2) * TILE_SIZE)
                     ((isqrt (length face) div 2) * TILE_SIZE))"
proof -
  from len big have pos: "0 < q" and large: "\<not> length face \<le> 4" by simp_all
  note sp = split_list_quarters [OF len pos]
  show ?thesis
    by (subst stitch_face.simps)
       (simp add: large sp list_get_def q0 q1 q2 q3 Let_def del: stitch_face.simps)
qed

lemma stitch_face_power_of_four_aux:
  "length face = 4 ^ Suc k \<Longrightarrow> \<forall>t \<in> set face. \<exists>b. t_image t = Some b \<and> decodable b \<Longrightarrow>
   \<exists>im. stitch_face decodable face = Inr im
      \<and> canvas_size im = Some (256 * 2 ^ Suc k, 256 * 2 ^ Suc k)
      \<and> nesting im = Suc k"
proof (induction k arbitrary: face)
  case 0
  then have len: "length face = 4" by simp
  from stitch_four_fetched [OF len "0.prems"(2)] obtain b0 b1 b2 b3
    where "stitch_four decodable face =
             Inr (Paste (Paste (Paste (Paste (New 512 512)
                    (Decoded b0) 0 0)
                    (Decoded b1) 256 0)
                    (Decoded b2) 0 256)
                    (Decoded b3) 256 256)"
    by blast
  with len show ?case by (simp add: stitch_face.simps [of decodable face])
next
  case (Suc k)
  define q :: nat where "q = 4 ^ Suc k"
  from Suc.prems(1) have len: "length face = 4 * q" by (simp add: q_def)
  have big: "1 < q"
  proof -
    have "(0::nat) < 4 ^ k" by simp
    then have "(1::nat) < 4 * 4 ^ k" by linarith
    then show ?thesis by (simp add: q_def)
  qed
  have part: "\<exists>im. stitch_face decodable (take q (drop n face)) = Inr im
      \<and> canvas_size im = Some (256 * 2 ^ Suc k, 256 * 2 ^ Suc k)
      \<and> nesting im = Suc k" if "n + q \<le> length face" for n
  proof (rule Suc.IH)
    from that show "length (take q (drop n face)) = 4 ^ Suc k" by (simp add: q_def)
    show "\<forall>t \<in> set (take q (drop n face)). \<exists>b. t_image t = Some b \<and> decodable b"
      using Suc.prems(2) by (meson in_set_dropD in_set_takeD)
  qed
  from part [of 0] len obtain q0 where q0: "stitch_face decodable (take q face) = Inr q0"
    and n0: "nesting q0 = Suc k" by auto
  from part [of q] len obtain q1 where q1: "stitch_face decodable (take q (drop q face)) = Inr q1"
    and n1: "nesting q1 = Suc k" by auto
  from part [of "2 * q"] len obtain q2
    where q2: "stitch_face decodable (take q (drop (2 * q) face)) = Inr q2"
    and n2: "nesting q2 = Suc k" by auto
  from part [of "3 * q"] len obtain q3
    where q3: "stitch_face decodable (take q (drop (3 * q) face)) = Inr q3"
    and n3: "nesting q3 = Suc k" by auto
  have "isqrt (length face) = 2 ^ Suc (Suc k)"
    unfolding Suc.prems(1) by (rule isqrt_power_of_four)
  then have side: "(isqrt (length face) div 2) * TILE_SIZE = 256 * 2 ^ Suc k"
    by (simp add: TILE_SIZE_def)
  from stitch_face_quarters [OF len big q0 q1 q2 q3]
  show ?case by (simp add: side n0 n1 n2 n3)
qed

text \<open>
  C2. Let a face consist of exactly \<open>4^k\<close> fetched tiles with \<open>k \<ge> 1\<close>, each carrying
  bytes that the image library decodes. Then
  \<^verbatim>\<open>_stitch_face\<close> returns a square canvas of side \<open>256 * 2^k\<close> that was produced by
  exactly \<open>k\<close> levels of stitching. For \<open>k = 1\<close> it is the 512-pixel canvas with tile 0
  pasted at the top left, tile 1 at the top right, tile 2 at the bottom left and tile 3 at
  the bottom right, 256 pixels apart. For \<open>k \<ge> 2\<close> the tile list is split into four
  contiguous sublists of length \<open>4^(k-1)\<close>, each of them is stitched by the recursive call,
  and the four results are pasted in the same order, top left, top right, bottom left,
  bottom right, \<open>256 * 2^(k-1)\<close> pixels apart.
\<close>

theorem stitch_face_power_of_four:
  assumes "length face = 4 ^ k" and "1 \<le> k" and "\<forall>t \<in> set face. \<exists>b. t_image t = Some b \<and> decodable b"
  shows "\<exists>im. stitch_face decodable face = Inr im
           \<and> canvas_size im = Some (256 * 2 ^ k, 256 * 2 ^ k)
           \<and> nesting im = k
           \<and> (k = 1 \<longrightarrow>
                (\<exists>b0 b1 b2 b3.
                    map t_image face = [Some b0, Some b1, Some b2, Some b3]
                  \<and> im = Paste (Paste (Paste (Paste (New 512 512)
                            (Decoded b0) 0 0)
                            (Decoded b1) 256 0)
                            (Decoded b2) 0 256)
                            (Decoded b3) 256 256))
           \<and> (2 \<le> k \<longrightarrow>
                (\<exists>s0 s1 s2 s3 q0 q1 q2 q3.
                    split_list face (int (length face) div 4) = Inr [s0, s1, s2, s3]
                  \<and> s0 @ s1 @ s2 @ s3 = face
                  \<and> length s0 = 4 ^ (k - 1) \<and> length s1 = 4 ^ (k - 1)
                  \<and> length s2 = 4 ^ (k - 1) \<and> length s3 = 4 ^ (k - 1)
                  \<and> stitch_face decodable s0 = Inr q0 \<and> stitch_face decodable s1 = Inr q1
                  \<and> stitch_face decodable s2 = Inr q2 \<and> stitch_face decodable s3 = Inr q3
                  \<and> nesting q0 = k - 1 \<and> nesting q1 = k - 1
                  \<and> nesting q2 = k - 1 \<and> nesting q3 = k - 1
                  \<and> im = Paste (Paste (Paste (Paste (New (256 * 2 ^ k) (256 * 2 ^ k))
                            q0 0 0)
                            q1 (256 * 2 ^ (k - 1)) 0)
                            q2 0 (256 * 2 ^ (k - 1)))
                            q3 (256 * 2 ^ (k - 1)) (256 * 2 ^ (k - 1))))"
proof -
  from assms(2) obtain j where k: "k = Suc j" by (cases k) auto
  from assms(1) have len: "length face = 4 ^ Suc j" by (simp add: k)
  from stitch_face_power_of_four_aux [OF len assms(3)] obtain im
    where im: "stitch_face decodable face = Inr im"
      and size: "canvas_size im = Some (256 * 2 ^ k, 256 * 2 ^ k)"
      and nest: "nesting im = k"
    unfolding k by blast
  have base: "\<exists>b0 b1 b2 b3.
                  map t_image face = [Some b0, Some b1, Some b2, Some b3]
                \<and> im = Paste (Paste (Paste (Paste (New 512 512)
                          (Decoded b0) 0 0)
                          (Decoded b1) 256 0)
                          (Decoded b2) 0 256)
                          (Decoded b3) 256 256" if "k = 1"
  proof -
    from that assms(1) have four: "length face = 4" by simp
    from stitch_four_fetched [OF four assms(3)] obtain b0 b1 b2 b3
      where m: "map t_image face = [Some b0, Some b1, Some b2, Some b3]"
        and s: "stitch_four decodable face =
                  Inr (Paste (Paste (Paste (Paste (New 512 512)
                         (Decoded b0) 0 0)
                         (Decoded b1) 256 0)
                         (Decoded b2) 0 256)
                         (Decoded b3) 256 256)"
      by (elim exE conjE)
    from four have "stitch_face decodable face = stitch_four decodable face"
      by (simp add: stitch_face.simps [of decodable face])
    with im s m show ?thesis by simp
  qed
  have step: "\<exists>s0 s1 s2 s3 q0 q1 q2 q3.
                  split_list face (int (length face) div 4) = Inr [s0, s1, s2, s3]
                \<and> s0 @ s1 @ s2 @ s3 = face
                \<and> length s0 = 4 ^ (k - 1) \<and> length s1 = 4 ^ (k - 1)
                \<and> length s2 = 4 ^ (k - 1) \<and> length s3 = 4 ^ (k - 1)
                \<and> stitch_face decodable s0 = Inr q0 \<and> stitch_face decodable s1 = Inr q1
                \<and> stitch_face decodable s2 = Inr q2 \<and> stitch_face decodable s3 = Inr q3
                \<and> nesting q0 = k - 1 \<and> nesting q1 = k - 1
                \<and> nesting q2 = k - 1 \<and> nesting q3 = k - 1
                \<and> im = Paste (Paste (Paste (Paste (New (256 * 2 ^ k) (256 * 2 ^ k))
                          q0 0 0)
                          q1 (256 * 2 ^ (k - 1)) 0)
                          q2 0 (256 * 2 ^ (k - 1)))
                          q3 (256 * 2 ^ (k - 1)) (256 * 2 ^ (k - 1))" if "2 \<le> k"
  proof -
    from that k obtain i where j: "j = Suc i" by (cases j) auto
    define q :: nat where "q = 4 ^ Suc i"
    have q_eq: "q = 4 ^ (k - 1)" by (simp add: q_def k j)
    from len have len4: "length face = 4 * q" by (simp add: q_def j)
    have pos: "0 < q" by (simp add: q_def)
    have big: "1 < q"
    proof -
      have "(0::nat) < 4 ^ i" by simp
      then have "(1::nat) < 4 * 4 ^ i" by linarith
      then show ?thesis by (simp add: q_def)
    qed
    have part: "\<exists>qi. stitch_face decodable (take q (drop n face)) = Inr qi \<and> nesting qi = Suc i"
      if "n + q \<le> length face" for n
    proof -
      from that have "length (take q (drop n face)) = 4 ^ Suc i" by (simp add: q_def)
      moreover have "\<forall>t \<in> set (take q (drop n face)). \<exists>b. t_image t = Some b \<and> decodable b"
        using assms(3) by (meson in_set_dropD in_set_takeD)
      ultimately show ?thesis
        using stitch_face_power_of_four_aux [of "take q (drop n face)" i] by blast
    qed
    from part [of 0] len4 obtain q0 where q0: "stitch_face decodable (take q face) = Inr q0"
      and n0: "nesting q0 = Suc i" by auto
    from part [of q] len4 obtain q1 where q1: "stitch_face decodable (take q (drop q face)) = Inr q1"
      and n1: "nesting q1 = Suc i" by auto
    from part [of "2 * q"] len4 obtain q2
      where q2: "stitch_face decodable (take q (drop (2 * q) face)) = Inr q2"
      and n2: "nesting q2 = Suc i" by auto
    from part [of "3 * q"] len4 obtain q3
      where q3: "stitch_face decodable (take q (drop (3 * q) face)) = Inr q3"
      and n3: "nesting q3 = Suc i" by auto
    have "isqrt (length face) = 2 ^ Suc (Suc i)"
      unfolding len j by (rule isqrt_power_of_four)
    then have side: "(isqrt (length face) div 2) * TILE_SIZE = 256 * 2 ^ (k - 1)"
      by (simp add: TILE_SIZE_def k j)
    have double: "256 * 2 ^ (k - 1) * 2 = (256::nat) * 2 ^ k" by (simp add: k)
    from stitch_face_quarters [OF len4 big q0 q1 q2 q3] im
    have shape: "im = Paste (Paste (Paste (Paste (New (256 * 2 ^ k) (256 * 2 ^ k))
                          q0 0 0)
                          q1 (256 * 2 ^ (k - 1)) 0)
                          q2 0 (256 * 2 ^ (k - 1)))
                          q3 (256 * 2 ^ (k - 1)) (256 * 2 ^ (k - 1))"
      by (simp only: side double sum.inject)
    have lens: "length (take q face) = 4 ^ (k - 1)"
      "length (take q (drop q face)) = 4 ^ (k - 1)"
      "length (take q (drop (2 * q) face)) = 4 ^ (k - 1)"
      "length (take q (drop (3 * q) face)) = 4 ^ (k - 1)"
      using len4 q_eq by simp_all
    have nests: "nesting q0 = k - 1" "nesting q1 = k - 1" "nesting q2 = k - 1"
      "nesting q3 = k - 1"
      using n0 n1 n2 n3 by (simp_all add: k j)
    from split_list_quarters [OF len4 pos] quarters_append [OF len4] lens
      q0 q1 q2 q3 nests shape
    show ?thesis by blast
  qed
  show ?thesis
    by (rule exI [of _ im]) (intro conjI impI im size nest; erule base step)
qed

theorem stitch_face_power_of_four_witness:
  "length [fetched_tile 0, fetched_tile 1, fetched_tile 2, fetched_tile 3] = 4 ^ 1
   \<and> (1::nat) \<le> 1
   \<and> map (\<lambda>t. map_option sample_decodable (t_image t))
         [fetched_tile 0, fetched_tile 1, fetched_tile 2, fetched_tile 3]
       = [Some True, Some True, Some True, Some True]
   \<and> stitch_face sample_decodable
         [fetched_tile 0, fetched_tile 1, fetched_tile 2, fetched_tile 3]
       = Inr (Paste (Paste (Paste (Paste (New 512 512)
                (Decoded [0xFF, 0xD8, 0]) 0 0)
                (Decoded [0xFF, 0xD8, 1]) 256 0)
                (Decoded [0xFF, 0xD8, 2]) 0 256)
                (Decoded [0xFF, 0xD8, 3]) 256 256)
   \<and> length (map fetched_tile [0..<16]) = 4 ^ 2
   \<and> (1::nat) \<le> 2
   \<and> map (\<lambda>t. map_option sample_decodable (t_image t)) (map fetched_tile [0..<16])
       = replicate 16 (Some True)
   \<and> (\<exists>im. stitch_face sample_decodable (map fetched_tile [0..<16]) = Inr im
          \<and> canvas_size im = Some (1024, 1024) \<and> nesting im = 2)"
proof -
  have four: "\<forall>t \<in> set [fetched_tile 0, fetched_tile 1, fetched_tile 2, fetched_tile 3].
                \<exists>b. t_image t = Some b \<and> sample_decodable b"
    by simp
  have sixteen: "\<forall>t \<in> set (map fetched_tile [0..<16]).
                   \<exists>b. t_image t = Some b \<and> sample_decodable b"
    by simp
  have marks: "map (\<lambda>t. map_option sample_decodable (t_image t)) (map fetched_tile [0..<16])
                 = replicate 16 (Some True)"
    by (simp add: upt_rec replicate_unfold)
  from stitch_face_power_of_four
         [of "[fetched_tile 0, fetched_tile 1, fetched_tile 2, fetched_tile 3]" 1
             sample_decodable, OF _ _ four]
  have small: "stitch_face sample_decodable
                 [fetched_tile 0, fetched_tile 1, fetched_tile 2, fetched_tile 3]
               = Inr (Paste (Paste (Paste (Paste (New 512 512)
                        (Decoded [0xFF, 0xD8, 0]) 0 0)
                        (Decoded [0xFF, 0xD8, 1]) 256 0)
                        (Decoded [0xFF, 0xD8, 2]) 0 256)
                        (Decoded [0xFF, 0xD8, 3]) 256 256)"
    by auto
  from stitch_face_power_of_four [of "map fetched_tile [0..<16]" 2 sample_decodable,
         OF _ _ sixteen]
  have large: "\<exists>im. stitch_face sample_decodable (map fetched_tile [0..<16]) = Inr im
                 \<and> canvas_size im = Some (1024, 1024) \<and> nesting im = 2"
    by auto
  from small large marks show ?thesis by simp
qed

section \<open>Properties of the download and of the zoom clamping\<close>

lemma attach_images_short:
  "length tiles < length face \<Longrightarrow> attach_images face tiles = Inl IndexError"
  by (induction face tiles rule: attach_images.induct) simp_all

lemma attach_images_length:
  "attach_images face tiles = Inr face' \<Longrightarrow> length face' = length face"
  by (induction face tiles arbitrary: face' rule: attach_images.induct)
     (auto split: sum.splits)

lemma attach_images_ok:
  "length face \<le> length tiles \<Longrightarrow> \<exists>face'. attach_images face tiles = Inr face'"
proof (induction face tiles rule: attach_images.induct)
  case (1 tiles)
  show ?case by simp
next
  case (2 tile face)
  then show ?case by simp
next
  case (3 tile face b tiles)
  then obtain face' where "attach_images face tiles = Inr face'" by auto
  then show ?case by simp
qed

lemma download_tiles_step:
  assumes "\<not> batch_failed (fetch (map t_url face)) (length face)"
  shows "\<exists>face'. download_tiles fetch ((face_id, face) # faces) =
           (case download_tiles fetch faces of
              Inl e \<Rightarrow> Inl e
            | Inr faces' \<Rightarrow> Inr ((face_id, face') # faces'))"
proof -
  from assms obtain tiles where fetched: "fetch (map t_url face) = Inr tiles"
    and enough: "length face \<le> length tiles"
    by (auto simp: batch_failed_def split: sum.splits)
  from attach_images_ok [OF enough] obtain face'
    where "attach_images face tiles = Inr face'" by blast
  with fetched show ?thesis by auto
qed

lemma download_tiles_first_failure:
  assumes "\<forall>(i, f) \<in> set before. \<not> batch_failed (fetch (map t_url f)) (length f)"
    and "download_tiles fetch ((face_id, face) # after) = Inl e"
  shows "download_tiles fetch (before @ (face_id, face) # after) = Inl e"
  using assms(1)
proof (induction before)
  case Nil
  show ?case using assms(2) by simp
next
  case (Cons entry before)
  obtain i f where entry: "entry = (i, f)" by (cases entry)
  from Cons.prems have ok: "\<not> batch_failed (fetch (map t_url f)) (length f)"
    and rest: "\<forall>(i, f) \<in> set before. \<not> batch_failed (fetch (map t_url f)) (length f)"
    by (simp_all add: entry)
  from Cons.IH [OF rest]
  have tail: "download_tiles fetch (before @ (face_id, face) # after) = Inl e" .
  from download_tiles_step [of fetch f i "before @ (face_id, face) # after", OF ok] tail
  show ?case by (auto simp: entry)
qed

lemma download_tiles_raises:
  assumes "\<forall>(i, f) \<in> set before. \<not> batch_failed (fetch (map t_url f)) (length f)"
    and "fetch (map t_url face) = Inl e"
  shows "download_tiles fetch (before @ (face_id, face) # after) = Inl e"
proof (rule download_tiles_first_failure [OF assms(1)])
  show "download_tiles fetch ((face_id, face) # after) = Inl e"
    using assms(2) by simp
qed

lemma download_tiles_short:
  assumes "\<forall>(i, f) \<in> set before. \<not> batch_failed (fetch (map t_url f)) (length f)"
    and "fetch (map t_url face) = Inr tiles" and "length tiles < length face"
  shows "download_tiles fetch (before @ (face_id, face) # after) = Inl IndexError"
proof (rule download_tiles_first_failure [OF assms(1)])
  from assms(3) have "attach_images face tiles = Inl IndexError"
    by (rule attach_images_short)
  with assms(2) show "download_tiles fetch ((face_id, face) # after) = Inl IndexError"
    by simp
qed

lemma download_tiles_fails:
  assumes "(face_id, face) \<in> set faces"
    and "batch_failed (fetch (map t_url face)) (length face)"
  shows "\<exists>e. (e = IndexError \<or> (\<exists>(i, f) \<in> set faces. fetch (map t_url f) = Inl e))
           \<and> download_tiles fetch faces = Inl e"
proof -
  from assms have "\<exists>entry \<in> set faces.
      batch_failed (fetch (map t_url (snd entry))) (length (snd entry))"
    by force
  from split_list_first_prop [OF this] obtain before entry after
    where faces: "faces = before @ entry # after"
      and bad: "batch_failed (fetch (map t_url (snd entry))) (length (snd entry))"
      and good: "\<forall>y \<in> set before.
                   \<not> batch_failed (fetch (map t_url (snd y))) (length (snd y))"
    by blast
  obtain i f where entry: "entry = (i, f)" by (cases entry)
  from good
  have ok: "\<forall>(i, f) \<in> set before. \<not> batch_failed (fetch (map t_url f)) (length f)"
    by auto
  show ?thesis
  proof (cases "fetch (map t_url f)")
    case (Inl e)
    from download_tiles_raises [OF ok Inl]
    have "download_tiles fetch faces = Inl e" by (simp add: faces entry)
    moreover from Inl have "\<exists>(i, f) \<in> set faces. fetch (map t_url f) = Inl e"
      by (auto simp: faces entry)
    ultimately show ?thesis by blast
  next
    case (Inr tiles)
    with bad have "length tiles < length f" by (simp add: batch_failed_def entry)
    from download_tiles_short [OF ok Inr this]
    have "download_tiles fetch faces = Inl IndexError" by (simp add: faces entry)
    then show ?thesis by blast
  qed
qed


text \<open>
  C5. For a Streetside panorama whose \<open>max_zoom\<close> lies between 0 and 4, \<^verbatim>\<open>get_panorama\<close>
  generates its tile list at the requested zoom clamped to \<open>[0, max_zoom]\<close>, and the
  generation succeeds. Two requested zooms that clamp to the same value therefore give
  the same tile list, and the same result of \<^verbatim>\<open>get_panorama\<close>; with \<open>max_zoom = 3\<close>, the
  requests for zoom 10 and for zoom 3 give the same tile list.
\<close>

theorem streetside_zoom_clamping:
  assumes "0 \<le> max_zoom pano" and "max_zoom pano \<le> 4"
  shows "streetside_get_panorama_tile_list pano zoom =
           streetside_generate_tile_list (id_ss pano) (max 0 (min zoom (max_zoom pano)))
       \<and> 0 \<le> max 0 (min zoom (max_zoom pano))
       \<and> max 0 (min zoom (max_zoom pano)) \<le> max_zoom pano
       \<and> (\<exists>faces. streetside_get_panorama_tile_list pano zoom = Inr faces)
       \<and> (max 0 (min zoom (max_zoom pano)) = max 0 (min zoom' (max_zoom pano)) \<longrightarrow>
            streetside_get_panorama_tile_list pano zoom =
              streetside_get_panorama_tile_list pano zoom'
          \<and> streetside_get_panorama fetch decodable compose pano zoom stitching_method =
              streetside_get_panorama fetch decodable compose pano zoom' stitching_method)
       \<and> (max_zoom pano = 3 \<longrightarrow>
            streetside_get_panorama_tile_list pano 10 =
              streetside_get_panorama_tile_list pano 3)"
proof (intro conjI impI)
  show "streetside_get_panorama_tile_list pano zoom =
          streetside_generate_tile_list (id_ss pano) (max 0 (min zoom (max_zoom pano)))"
    by (simp add: streetside_get_panorama_tile_list_def Let_def)
  show "0 \<le> max 0 (min zoom (max_zoom pano))" by simp
  show "max 0 (min zoom (max_zoom pano)) \<le> max_zoom pano" using assms(1) by simp
  show "\<exists>faces. streetside_get_panorama_tile_list pano zoom = Inr faces"
    using assms
    by (simp add: streetside_get_panorama_tile_list_def streetside_generate_tile_list_def
          Let_def)
next
  assume same: "max 0 (min zoom (max_zoom pano)) = max 0 (min zoom' (max_zoom pano))"
  then show lists: "streetside_get_panorama_tile_list pano zoom =
                      streetside_get_panorama_tile_list pano zoom'"
    by (simp add: streetside_get_panorama_tile_list_def Let_def)
  then show "streetside_get_panorama fetch decodable compose pano zoom stitching_method =
               streetside_get_panorama fetch decodable compose pano zoom' stitching_method"
    by (simp add: streetside_get_panorama_def)
next
  assume "max_zoom pano = 3"
  then show "streetside_get_panorama_tile_list pano 10 =
               streetside_get_panorama_tile_list pano 3"
    by (simp add: streetside_get_panorama_tile_list_def Let_def)
qed

theorem streetside_zoom_clamping_witness:
  "(0::int) \<le> max_zoom \<lparr>id_ss = 1234567, max_zoom = 3\<rparr>
   \<and> max_zoom \<lparr>id_ss = 1234567, max_zoom = 3\<rparr> \<le> 4
   \<and> max 0 (min 10 (max_zoom \<lparr>id_ss = 1234567, max_zoom = 3\<rparr>))
       = max 0 (min 7 (max_zoom \<lparr>id_ss = 1234567, max_zoom = 3\<rparr>))
   \<and> streetside_get_panorama_tile_list \<lparr>id_ss = 1234567, max_zoom = 3\<rparr> 10
       = streetside_get_panorama_tile_list \<lparr>id_ss = 1234567, max_zoom = 3\<rparr> 7
   \<and> streetside_get_panorama_tile_list \<lparr>id_ss = 1234567, max_zoom = 3\<rparr> 10
       = streetside_get_panorama_tile_list \<lparr>id_ss = 1234567, max_zoom = 3\<rparr> 3
   \<and> streetside_get_panorama_tile_list \<lparr>id_ss = 1234567, max_zoom = 3\<rparr> 10
       = streetside_generate_tile_list 1234567 3"
  using streetside_zoom_clamping
          [of "\<lparr>id_ss = 1234567, max_zoom = 3\<rparr>" 10 7 "\<lambda>urls. Inr []" sample_decodable
              "\<lambda>stitched_faces full_tile_size (m::unit). (Inr stitched_faces :: error + img list)"
              "()"]
  by auto

section \<open>Properties of the grid engine\<close>

lemma math_ceil_div_exact:
  assumes "b \<noteq> 0" and "\<bar>a\<bar> < 2 ^ 53" and "\<bar>b\<bar> < 2 ^ 53"
  shows "math_ceil_div float_ceil a b = Inr \<lceil>real_of_int a / real_of_int b\<rceil>"
  using assms by (simp add: math_ceil_div_def ceiling_divide_eq_div)

lemma str_int_digit:
  assumes "0 \<le> i" and "i < 10"
  shows "str_int i = [digit_char (nat i)]"
proof -
  from assms have "nat i < 10" by simp
  then have "str_nat (nat i) = [digit_char (nat i)]"
    by (subst str_nat.simps) simp
  with assms(1) show ?thesis by (simp add: str_int_def)
qed

lemma streetview_generate_tile_list_ok:
  assumes "image_sizes pano = Some sizes" and "py_index sizes zoom = Inr img_sz"
    and "tile_size pano = Some ts"
    and "math_ceil_div float_ceil (size_x img_sz) (size_x ts) = Inr cols"
    and "math_ceil_div float_ceil (size_y img_sz) (size_y ts) = Inr rows"
  shows "streetview_generate_tile_list float_ceil is_third_party_panoid pano zoom =
           Inr (map (\<lambda>(x, y).
                  \<lparr>tile_x = x, tile_y = y,
                   tile_url = (if is_third_party_panoid (id_sv pano)
                               then THIRD_PARTY_IMAGE_URL else IMAGE_URL)
                                (id_sv pano) x y zoom\<rparr>)
                (List.product (py_range cols) (py_range rows)))"
  using assms by (simp add: streetview_generate_tile_list_def Let_def)

lemma streetview_generate_tile_list_Inr:
  assumes "streetview_generate_tile_list float_ceil is_third_party_panoid pano zoom = Inr tiles"
  shows "\<exists>coords. tiles = map (\<lambda>(x, y).
                  \<lparr>tile_x = x, tile_y = y,
                   tile_url = (if is_third_party_panoid (id_sv pano)
                               then THIRD_PARTY_IMAGE_URL else IMAGE_URL)
                                (id_sv pano) x y zoom\<rparr>) coords"
  using assms
  by (auto simp: streetview_generate_tile_list_def Let_def
           split: option.splits sum.splits if_splits)

lemma tile_coordinates:
  "map (\<lambda>t. (tile_x t, tile_y t))
     (map (\<lambda>(x, y). \<lparr>tile_x = x, tile_y = y, tile_url = u x y\<rparr>) coords) = coords"
  by (induction coords) auto

lemma py_index_clamped:
  assumes "sizes \<noteq> []"
  shows "py_index sizes (max 0 (min zoom (int (length sizes) - 1)))
           = Inr (sizes ! nat (max 0 (min zoom (int (length sizes) - 1))))"
proof -
  from assms have "0 < length sizes" by simp
  then have "max 0 (min zoom (int (length sizes) - 1)) < int (length sizes)" by simp
  then show ?thesis by (simp add: py_index_def)
qed

lemma paste_tiles_error:
  "paste_tiles decodable tsize canvas entries = Inl e \<Longrightarrow> e = UnidentifiedImageError"
proof (induction entries arbitrary: canvas)
  case Nil
  then show ?case by simp
next
  case (Cons entry entries)
  obtain tile b where "entry = (tile, b)" by (cases entry)
  with Cons show ?case
    by (auto simp: image_open_def split: if_splits)
qed

lemma math_ceil_div_error:
  "math_ceil_div float_ceil a b = Inl e \<Longrightarrow> e = ZeroDivisionError \<or> e = OverflowError"
  by (auto simp: math_ceil_div_def split: if_splits option.splits)

text \<open>
  C8. In both engines the error of a failed batch fetch is the outcome of the whole
  request, and no image is returned.

  Cubemap engine, for the face whose batch is the first to fail in the generated tile
  list: if the fetch raises \<open>e\<close>, \<^verbatim>\<open>get_panorama\<close> raises \<open>e\<close>; if the fetch returns
  fewer results than URLs were requested, \<^verbatim>\<open>get_panorama\<close> raises the \<^verbatim>\<open>IndexError\<close> of
  \<^verbatim>\<open>tiles[idx]\<close>. This holds whatever the decoding and the composition would do: they
  are not reached. Hence, whenever the batch of any face fails, \<^verbatim>\<open>get_panorama\<close>
  raises, and what it raises is \<^verbatim>\<open>IndexError\<close> or an error that the fetch raised for one
  of the faces.

  Grid engine, for the one batch of the generated tile list: if the fetch raises \<open>e\<close>,
  \<^verbatim>\<open>get_panorama\<close> raises \<open>e\<close>; if it returns fewer results than URLs were requested,
  \<^verbatim>\<open>get_panorama\<close> fails with the fetch failure.
\<close>

theorem fetch_failure_aborts:
  "(streetside_get_panorama_tile_list pano zoom = Inr (before @ (face_id, face) # after)
      \<and> (\<forall>(i, f) \<in> set before. \<not> batch_failed (fetch (map t_url f)) (length f)) \<longrightarrow>
        (fetch (map t_url face) = Inl e \<longrightarrow>
           (\<forall>decodable (compose :: img list \<Rightarrow> nat \<Rightarrow> 'm \<Rightarrow> error + 'out) stitching_method.
              streetside_get_panorama fetch decodable compose pano zoom stitching_method
                = Inl e))
      \<and> (fetch (map t_url face) = Inr tiles \<and> length tiles < length face \<longrightarrow>
           (\<forall>decodable (compose :: img list \<Rightarrow> nat \<Rightarrow> 'm \<Rightarrow> error + 'out) stitching_method.
              streetside_get_panorama fetch decodable compose pano zoom stitching_method
                = Inl IndexError)))
   \<and> (streetside_get_panorama_tile_list pano zoom = Inr faces
      \<and> (bad_id, bad_face) \<in> set faces
      \<and> batch_failed (fetch (map t_url bad_face)) (length bad_face) \<longrightarrow>
        (\<exists>raised.
           (raised = IndexError \<or> (\<exists>(i, f) \<in> set faces. fetch (map t_url f) = Inl raised))
         \<and> (\<forall>decodable (compose :: img list \<Rightarrow> nat \<Rightarrow> 'm \<Rightarrow> error + 'out) stitching_method.
              streetside_get_panorama fetch decodable compose pano zoom stitching_method
                = Inl raised)))
   \<and> (validate_get_panorama_params sv_pano sv_zoom = Inr clamped
      \<and> streetview_generate_tile_list float_ceil is_third_party_panoid sv_pano clamped
          = Inr sv_tiles \<longrightarrow>
        (fetch (map tile_url sv_tiles) = Inl e' \<longrightarrow>
           (\<forall>decodable.
              streetview_get_panorama fetch decodable float_ceil is_third_party_panoid
                sv_pano sv_zoom = Inl e'))
      \<and> (fetch (map tile_url sv_tiles) = Inr images \<and> length images < length sv_tiles \<longrightarrow>
           (\<forall>decodable.
              streetview_get_panorama fetch decodable float_ceil is_third_party_panoid
                sv_pano sv_zoom = Inl FetchFailure)))"
proof (intro conjI impI allI)
  fix decodable :: "bytes \<Rightarrow> bool"
    and compose :: "img list \<Rightarrow> nat \<Rightarrow> 'm \<Rightarrow> error + 'out" and stitching_method
  assume gen: "streetside_get_panorama_tile_list pano zoom = Inr (before @ (face_id, face) # after)
      \<and> (\<forall>(i, f) \<in> set before. \<not> batch_failed (fetch (map t_url f)) (length f))"
  then have ok: "\<forall>(i, f) \<in> set before. \<not> batch_failed (fetch (map t_url f)) (length f)"
    by simp
  {
    assume "fetch (map t_url face) = Inl e"
    with ok have "download_tiles fetch (before @ (face_id, face) # after) = Inl e"
      by (rule download_tiles_raises)
    with gen
    show "streetside_get_panorama fetch decodable compose pano zoom stitching_method = Inl e"
      by (simp add: streetside_get_panorama_def)
  }
  {
    assume "fetch (map t_url face) = Inr tiles \<and> length tiles < length face"
    then have "fetch (map t_url face) = Inr tiles" and "length tiles < length face"
      by simp_all
    with ok have "download_tiles fetch (before @ (face_id, face) # after) = Inl IndexError"
      by (rule download_tiles_short)
    with gen
    show "streetside_get_panorama fetch decodable compose pano zoom stitching_method
            = Inl IndexError"
      by (simp add: streetside_get_panorama_def)
  }
next
  assume a: "streetside_get_panorama_tile_list pano zoom = Inr faces
      \<and> (bad_id, bad_face) \<in> set faces
      \<and> batch_failed (fetch (map t_url bad_face)) (length bad_face)"
  then obtain raised
    where kind: "raised = IndexError \<or> (\<exists>(i, f) \<in> set faces. fetch (map t_url f) = Inl raised)"
      and down: "download_tiles fetch faces = Inl raised"
    using download_tiles_fails [of bad_id bad_face faces fetch] by blast
  from a down
  have "\<forall>decodable (compose :: img list \<Rightarrow> nat \<Rightarrow> 'm \<Rightarrow> error + 'out) stitching_method.
          streetside_get_panorama fetch decodable compose pano zoom stitching_method
            = Inl raised"
    by (simp add: streetside_get_panorama_def)
  with kind
  show "\<exists>raised.
           (raised = IndexError \<or> (\<exists>(i, f) \<in> set faces. fetch (map t_url f) = Inl raised))
         \<and> (\<forall>decodable (compose :: img list \<Rightarrow> nat \<Rightarrow> 'm \<Rightarrow> error + 'out) stitching_method.
              streetside_get_panorama fetch decodable compose pano zoom stitching_method
                = Inl raised)"
    by blast
next
  fix decodable :: "bytes \<Rightarrow> bool"
  assume b: "validate_get_panorama_params sv_pano sv_zoom = Inr clamped
      \<and> streetview_generate_tile_list float_ceil is_third_party_panoid sv_pano clamped
          = Inr sv_tiles"
  {
    assume "fetch (map tile_url sv_tiles) = Inl e'"
    then have "get_equirectangular_panorama fetch decodable w h ts sv_tiles = Inl e'"
      for w h ts
      by (simp add: get_equirectangular_panorama_def)
    with b
    show "streetview_get_panorama fetch decodable float_ceil is_third_party_panoid
            sv_pano sv_zoom = Inl e'"
      by (auto simp: streetview_get_panorama_def streetview_generate_tile_list_def
               split: sum.splits option.splits)
  }
  {
    assume "fetch (map tile_url sv_tiles) = Inr images \<and> length images < length sv_tiles"
    then have "get_equirectangular_panorama fetch decodable w h ts sv_tiles = Inl FetchFailure"
      for w h ts
      by (simp add: get_equirectangular_panorama_def)
    with b
    show "streetview_get_panorama fetch decodable float_ceil is_third_party_panoid
            sv_pano sv_zoom = Inl FetchFailure"
      by (auto simp: streetview_get_panorama_def streetview_generate_tile_list_def
               split: sum.splits option.splits)
  }
qed

theorem fetch_failure_aborts_witness:
  "streetside_get_panorama_tile_list cubemap_pano 2
       = Inr (faces_before @ (3, failing_face) # faces_after)
   \<and> map (\<lambda>(i, f). batch_failed (failing_fetch (map t_url f)) (length f)) faces_before
       = [False, False, False]
   \<and> failing_fetch (map t_url failing_face) = Inl FetchFailure
   \<and> (\<forall>decodable (compose :: img list \<Rightarrow> nat \<Rightarrow> unit \<Rightarrow> error + img list)
          stitching_method.
          streetside_get_panorama failing_fetch decodable compose cubemap_pano 2
            stitching_method = Inl FetchFailure)
   \<and> map (\<lambda>(i, f). batch_failed (silent_fetch (map t_url f)) (length f)) faces_before
       = [False, False, False]
   \<and> silent_fetch (map t_url failing_face) = Inr []
   \<and> length ([] :: bytes list) < length failing_face
   \<and> (\<forall>decodable (compose :: img list \<Rightarrow> nat \<Rightarrow> unit \<Rightarrow> error + img list)
          stitching_method.
          streetside_get_panorama silent_fetch decodable compose cubemap_pano 2
            stitching_method = Inl IndexError)
   \<and> validate_get_panorama_params (sample_pano ''abc'') (-3) = Inr 0
   \<and> streetview_generate_tile_list no_float_ceil sample_is_third_party (sample_pano ''abc'') 0
       = Inr zoom0_tiles
   \<and> refusing_fetch (map tile_url zoom0_tiles) = Inl FetchFailure
   \<and> (\<forall>decodable.
          streetview_get_panorama refusing_fetch decodable no_float_ceil sample_is_third_party
            (sample_pano ''abc'') (-3) = Inl FetchFailure)
   \<and> short_fetch (map tile_url zoom0_tiles) = Inr [[0xFF, 0xD8, 7]]
   \<and> length [[0xFF, 0xD8, 7 :: 8 word]] < length zoom0_tiles
   \<and> (\<forall>decodable.
          streetview_get_panorama short_fetch decodable no_float_ceil sample_is_third_party
            (sample_pano ''abc'') (-3) = Inl FetchFailure)"
proof -
  have faces: "streetside_get_panorama_tile_list cubemap_pano 2
                 = Inr (faces_before @ (3, failing_face) # faces_after)"
    by (simp add: streetside_get_panorama_tile_list_def streetside_generate_tile_list_def
          to_base4.simps rjust_def base4_digit_def upt_rec replicate_unfold)
  have ok_failing: "\<forall>(i, f) \<in> set faces_before.
                      \<not> batch_failed (failing_fetch (map t_url f)) (length f)"
    by (simp add: batch_failed_def)
  have ok_silent: "\<forall>(i, f) \<in> set faces_before.
                     \<not> batch_failed (silent_fetch (map t_url f)) (length f)"
    by (simp add: batch_failed_def)
  have raises: "failing_fetch (map t_url failing_face) = Inl FetchFailure"
    by simp
  have silent: "silent_fetch (map t_url failing_face) = Inr []
                   \<and> length ([] :: bytes list) < length failing_face"
    by simp
  have clamped: "validate_get_panorama_params (sample_pano ''abc'') (-3) = Inr 0"
    by (simp add: validate_get_panorama_params_def)
  have tiles: "streetview_generate_tile_list no_float_ceil sample_is_third_party
                 (sample_pano ''abc'') 0 = Inr zoom0_tiles"
    by (simp add: streetview_generate_tile_list_def py_index_def math_ceil_div_def py_range_def
          upt_rec IMAGE_URL_def THIRD_PARTY_IMAGE_URL_def str_int_digit digit_char_def)
  have refuses: "refusing_fetch (map tile_url zoom0_tiles) = Inl FetchFailure"
    by simp
  have short: "short_fetch (map tile_url zoom0_tiles) = Inr [[0xFF, 0xD8, 7]]
                 \<and> length [[0xFF, 0xD8, 7 :: 8 word]] < length zoom0_tiles"
    by simp
  note cubemap = fetch_failure_aborts [THEN conjunct1, THEN mp, OF conjI]
  note refused = fetch_failure_aborts [where fetch = refusing_fetch, THEN conjunct2,
                   THEN conjunct2, THEN mp, OF conjI, OF clamped tiles]
  note shortened = fetch_failure_aborts [where fetch = short_fetch, THEN conjunct2,
                     THEN conjunct2, THEN mp, OF conjI, OF clamped tiles]
  have 1: "\<forall>decodable (compose :: img list \<Rightarrow> nat \<Rightarrow> unit \<Rightarrow> error + img list)
          stitching_method.
          streetside_get_panorama failing_fetch decodable compose cubemap_pano 2
            stitching_method = Inl FetchFailure"
    by (rule cubemap [OF faces ok_failing, THEN conjunct1, THEN mp, OF raises])
  have 2: "\<forall>decodable (compose :: img list \<Rightarrow> nat \<Rightarrow> unit \<Rightarrow> error + img list)
          stitching_method.
          streetside_get_panorama silent_fetch decodable compose cubemap_pano 2
            stitching_method = Inl IndexError"
    by (rule cubemap [OF faces ok_silent, THEN conjunct2, THEN mp, OF silent])
  have 3: "\<forall>decodable.
          streetview_get_panorama refusing_fetch decodable no_float_ceil sample_is_third_party
            (sample_pano ''abc'') (-3) = Inl FetchFailure"
    by (rule refused [THEN conjunct1, THEN mp, OF refuses])
  have 4: "\<forall>decodable.
          streetview_get_panorama short_fetch decodable no_float_ceil sample_is_third_party
            (sample_pano ''abc'') (-3) = Inl FetchFailure"
    by (rule shortened [THEN conjunct2, THEN mp, OF short])
  have before_failing:
    "map (\<lambda>(i, f). batch_failed (failing_fetch (map t_url f)) (length f)) faces_before
       = [False, False, False]"
    by (simp add: batch_failed_def)
  have before_silent:
    "map (\<lambda>(i, f). batch_failed (silent_fetch (map t_url f)) (length f)) faces_before
       = [False, False, False]"
    by (simp add: batch_failed_def)
  from faces before_failing raises 1 before_silent silent 2 clamped tiles refuses 3 short 4
  show ?thesis by (intro conjI) (erule conjunct1 conjunct2 | assumption)+
qed

text \<open>
  C3. Let the image size of the panorama at the chosen zoom be \<open>(width, height)\<close> and its
  tile size \<open>(tile_width, tile_height)\<close>, the tile size non-zero and all four numbers of
  magnitude below \<open>2^53\<close>, where the double quotient of the source has the exact
  ceiling. Then \<^verbatim>\<open>_generate_tile_list\<close> of
  the grid engine returns one tile per pair \<open>(x, y)\<close> with \<open>0 \<le> x < cols\<close> and
  \<open>0 \<le> y < rows\<close>, where \<open>cols = ceil(width / tile_width)\<close> and
  \<open>rows = ceil(height / tile_height)\<close>, ordered with all \<open>y\<close> for \<open>x = 0\<close> first, then all
  \<open>y\<close> for \<open>x = 1\<close>, and so on; the number of tiles is \<open>cols * rows\<close>. For a 512 by 256
  image with 256 by 256 tiles these are the two tiles \<open>(0, 0)\<close> and \<open>(1, 0)\<close>, and their
  URLs differ in the x parameter only.
\<close>

theorem streetview_tile_grid:
  assumes "image_sizes pano = Some sizes" and "py_index sizes zoom = Inr img_sz"
    and "tile_size pano = Some ts" and "size_x ts \<noteq> 0" and "size_y ts \<noteq> 0"
    and "\<bar>size_x img_sz\<bar> < 2 ^ 53" and "\<bar>size_y img_sz\<bar> < 2 ^ 53"
    and "\<bar>size_x ts\<bar> < 2 ^ 53" and "\<bar>size_y ts\<bar> < 2 ^ 53"
  shows "\<exists>tiles. streetview_generate_tile_list float_ceil is_third_party_panoid pano zoom = Inr tiles
     \<and> map (\<lambda>t. (tile_x t, tile_y t)) tiles =
         List.product
           (map int [0..<nat \<lceil>real_of_int (size_x img_sz) / real_of_int (size_x ts)\<rceil>])
           (map int [0..<nat \<lceil>real_of_int (size_y img_sz) / real_of_int (size_y ts)\<rceil>])
     \<and> length tiles =
         nat \<lceil>real_of_int (size_x img_sz) / real_of_int (size_x ts)\<rceil>
         * nat \<lceil>real_of_int (size_y img_sz) / real_of_int (size_y ts)\<rceil>
     \<and> (0 \<le> size_x img_sz \<and> 0 \<le> size_y img_sz \<and> 0 < size_x ts \<and> 0 < size_y ts \<longrightarrow>
          int (length tiles) =
            \<lceil>real_of_int (size_x img_sz) / real_of_int (size_x ts)\<rceil>
            * \<lceil>real_of_int (size_y img_sz) / real_of_int (size_y ts)\<rceil>)
     \<and> (size_x img_sz = 512 \<and> size_y img_sz = 256 \<and> size_x ts = 256 \<and> size_y ts = 256 \<longrightarrow>
          tiles =
            (if is_third_party_panoid (id_sv pano)
             then [\<lparr>tile_x = 0, tile_y = 0,
                    tile_url = ''https://lh3.ggpht.com/p/'' @ id_sv pano
                                 @ ''=x0-y0-z'' @ str_int zoom\<rparr>,
                   \<lparr>tile_x = 1, tile_y = 0,
                    tile_url = ''https://lh3.ggpht.com/p/'' @ id_sv pano
                                 @ ''=x1-y0-z'' @ str_int zoom\<rparr>]
             else [\<lparr>tile_x = 0, tile_y = 0,
                    tile_url = ''https://cbk0.google.com/cbk?output=tile&panoid=''
                                 @ id_sv pano @ ''&zoom='' @ str_int zoom @ ''&x=0&y=0''\<rparr>,
                   \<lparr>tile_x = 1, tile_y = 0,
                    tile_url = ''https://cbk0.google.com/cbk?output=tile&panoid=''
                                 @ id_sv pano @ ''&zoom='' @ str_int zoom @ ''&x=1&y=0''\<rparr>]))"
proof -
  define cols where "cols = \<lceil>real_of_int (size_x img_sz) / real_of_int (size_x ts)\<rceil>"
  define rows where "rows = \<lceil>real_of_int (size_y img_sz) / real_of_int (size_y ts)\<rceil>"
  define tiles where "tiles = map (\<lambda>(x, y).
                  \<lparr>tile_x = x, tile_y = y,
                   tile_url = (if is_third_party_panoid (id_sv pano)
                               then THIRD_PARTY_IMAGE_URL else IMAGE_URL)
                                (id_sv pano) x y zoom\<rparr>)
                (List.product (py_range cols) (py_range rows))"
  note cols = cols_def
  note rows = rows_def
  have c: "math_ceil_div float_ceil (size_x img_sz) (size_x ts) = Inr cols"
    unfolding cols_def using assms(4,6,8) by (rule math_ceil_div_exact)
  have r: "math_ceil_div float_ceil (size_y img_sz) (size_y ts) = Inr rows"
    unfolding rows_def using assms(5,7,9) by (rule math_ceil_div_exact)
  have res: "streetview_generate_tile_list float_ceil is_third_party_panoid pano zoom = Inr tiles"
    unfolding tiles_def by (rule streetview_generate_tile_list_ok [OF assms(1-3) c r])
  have coords: "map (\<lambda>t. (tile_x t, tile_y t)) tiles =
                  List.product (map int [0..<nat cols]) (map int [0..<nat rows])"
    unfolding tiles_def by (simp only: tile_coordinates py_range_def)
  have count: "length tiles = nat cols * nat rows"
    by (simp add: tiles_def py_range_def)
  have count_int: "int (length tiles) = cols * rows"
    if "0 \<le> size_x img_sz \<and> 0 \<le> size_y img_sz \<and> 0 < size_x ts \<and> 0 < size_y ts"
  proof -
    from that have "0 \<le> real_of_int (size_x img_sz) / real_of_int (size_x ts)"
      and "0 \<le> real_of_int (size_y img_sz) / real_of_int (size_y ts)"
      by simp_all
    then have "0 \<le> cols" and "0 \<le> rows"
      unfolding cols_def rows_def by linarith+
    then show ?thesis by (simp add: count)
  qed
  have example: "tiles =
            (if is_third_party_panoid (id_sv pano)
             then [\<lparr>tile_x = 0, tile_y = 0,
                    tile_url = ''https://lh3.ggpht.com/p/'' @ id_sv pano
                                 @ ''=x0-y0-z'' @ str_int zoom\<rparr>,
                   \<lparr>tile_x = 1, tile_y = 0,
                    tile_url = ''https://lh3.ggpht.com/p/'' @ id_sv pano
                                 @ ''=x1-y0-z'' @ str_int zoom\<rparr>]
             else [\<lparr>tile_x = 0, tile_y = 0,
                    tile_url = ''https://cbk0.google.com/cbk?output=tile&panoid=''
                                 @ id_sv pano @ ''&zoom='' @ str_int zoom @ ''&x=0&y=0''\<rparr>,
                   \<lparr>tile_x = 1, tile_y = 0,
                    tile_url = ''https://cbk0.google.com/cbk?output=tile&panoid=''
                                 @ id_sv pano @ ''&zoom='' @ str_int zoom @ ''&x=1&y=0''\<rparr>])"
    if "size_x img_sz = 512 \<and> size_y img_sz = 256 \<and> size_x ts = 256 \<and> size_y ts = 256"
  proof -
    from that have "cols = 2" and "rows = 1"
      by (simp_all add: cols_def rows_def ceiling_divide_eq_div)
    then have "List.product (py_range cols) (py_range rows) = [(0, 0), (1, 0)]"
      by (simp add: py_range_def upt_rec)
    then show ?thesis
      by (simp add: tiles_def IMAGE_URL_def THIRD_PARTY_IMAGE_URL_def str_int_digit
            digit_char_def)
  qed
  show ?thesis
    unfolding cols [symmetric] rows [symmetric]
    by (rule exI [of _ tiles])
       (intro conjI impI res coords count; erule count_int example)
qed

theorem streetview_tile_grid_witness:
  "image_sizes (sample_pano ''abc'') = Some sample_sizes
   \<and> py_index sample_sizes 0 = Inr \<lparr>size_x = 512, size_y = 256\<rparr>
   \<and> tile_size (sample_pano ''abc'') = Some sample_tile_size
   \<and> size_x sample_tile_size \<noteq> 0 \<and> size_y sample_tile_size \<noteq> 0
   \<and> \<bar>size_x \<lparr>size_x = 512, size_y = 256\<rparr>\<bar> < 2 ^ 53 \<and> \<bar>size_y \<lparr>size_x = 512, size_y = 256\<rparr>\<bar> < 2 ^ 53
   \<and> \<bar>size_x sample_tile_size\<bar> < 2 ^ 53 \<and> \<bar>size_y sample_tile_size\<bar> < 2 ^ 53
   \<and> streetview_generate_tile_list no_float_ceil sample_is_third_party (sample_pano ''abc'') 0 =
       Inr [grid_tile 0 0 ''https://cbk0.google.com/cbk?output=tile&panoid=abc&zoom=0&x=0&y=0'',
            grid_tile 1 0 ''https://cbk0.google.com/cbk?output=tile&panoid=abc&zoom=0&x=1&y=0'']"
  using streetview_tile_grid
          [of "(sample_pano ''abc'')" "sample_sizes" 0 "\<lparr>size_x = 512, size_y = 256\<rparr>"
              "sample_tile_size" no_float_ceil "sample_is_third_party"]
  by (auto simp: py_index_def str_int_digit digit_char_def)

text \<open>
  C6. Every tile that \<^verbatim>\<open>_generate_tile_list\<close> of the grid engine returns carries a URL
  built from one of two templates, chosen by the third-party predicate on the panorama
  id: if the predicate holds, the URL is \<^verbatim>\<open>https://lh3.ggpht.com/p/{id}=x{x}-y{y}-z{z}\<close>,
  otherwise it is
  \<^verbatim>\<open>https://cbk0.google.com/cbk?output=tile&panoid={id}&zoom={z}&x={x}&y={y}\<close>, each with
  the tile's own coordinates, the id and the zoom in decimal. Either template is produced
  for the ids on which the predicate decides for it.
\<close>

theorem streetview_tile_url_template:
  assumes "streetview_generate_tile_list float_ceil is_third_party_panoid pano zoom = Inr tiles"
    and "t \<in> set tiles"
  shows "(is_third_party_panoid (id_sv pano) \<longrightarrow>
            tile_url t = ''https://lh3.ggpht.com/p/'' @ id_sv pano
                           @ ''=x'' @ str_int (tile_x t) @ ''-y'' @ str_int (tile_y t)
                           @ ''-z'' @ str_int zoom)
       \<and> (\<not> is_third_party_panoid (id_sv pano) \<longrightarrow>
            tile_url t = ''https://cbk0.google.com/cbk?output=tile&panoid='' @ id_sv pano
                           @ ''&zoom='' @ str_int zoom
                           @ ''&x='' @ str_int (tile_x t) @ ''&y='' @ str_int (tile_y t))"
proof -
  from streetview_generate_tile_list_Inr [OF assms(1)] obtain coords
    where "tiles = map (\<lambda>(x, y).
                  \<lparr>tile_x = x, tile_y = y,
                   tile_url = (if is_third_party_panoid (id_sv pano)
                               then THIRD_PARTY_IMAGE_URL else IMAGE_URL)
                                (id_sv pano) x y zoom\<rparr>) coords"
    by blast
  with assms(2) obtain x y
    where "t = \<lparr>tile_x = x, tile_y = y,
                 tile_url = (if is_third_party_panoid (id_sv pano)
                             then THIRD_PARTY_IMAGE_URL else IMAGE_URL)
                              (id_sv pano) x y zoom\<rparr>"
    by auto
  then show ?thesis by (simp add: IMAGE_URL_def THIRD_PARTY_IMAGE_URL_def)
qed

theorem streetview_tile_url_template_witness:
  "streetview_generate_tile_list no_float_ceil sample_is_third_party (sample_pano ''abc'') 1 =
       Inr [grid_tile 0 0 ''https://cbk0.google.com/cbk?output=tile&panoid=abc&zoom=1&x=0&y=0'',
            grid_tile 0 1 ''https://cbk0.google.com/cbk?output=tile&panoid=abc&zoom=1&x=0&y=1'',
            grid_tile 1 0 ''https://cbk0.google.com/cbk?output=tile&panoid=abc&zoom=1&x=1&y=0'',
            grid_tile 1 1 ''https://cbk0.google.com/cbk?output=tile&panoid=abc&zoom=1&x=1&y=1'',
            grid_tile 2 0 ''https://cbk0.google.com/cbk?output=tile&panoid=abc&zoom=1&x=2&y=0'',
            grid_tile 2 1 ''https://cbk0.google.com/cbk?output=tile&panoid=abc&zoom=1&x=2&y=1'',
            grid_tile 3 0 ''https://cbk0.google.com/cbk?output=tile&panoid=abc&zoom=1&x=3&y=0'',
            grid_tile 3 1 ''https://cbk0.google.com/cbk?output=tile&panoid=abc&zoom=1&x=3&y=1'']
   \<and> first_party_tile \<in> set
       [grid_tile 0 0 ''https://cbk0.google.com/cbk?output=tile&panoid=abc&zoom=1&x=0&y=0'',
            grid_tile 0 1 ''https://cbk0.google.com/cbk?output=tile&panoid=abc&zoom=1&x=0&y=1'',
            grid_tile 1 0 ''https://cbk0.google.com/cbk?output=tile&panoid=abc&zoom=1&x=1&y=0'',
            grid_tile 1 1 ''https://cbk0.google.com/cbk?output=tile&panoid=abc&zoom=1&x=1&y=1'',
            grid_tile 2 0 ''https://cbk0.google.com/cbk?output=tile&panoid=abc&zoom=1&x=2&y=0'',
            grid_tile 2 1 ''https://cbk0.google.com/cbk?output=tile&panoid=abc&zoom=1&x=2&y=1'',
            grid_tile 3 0 ''https://cbk0.google.com/cbk?output=tile&panoid=abc&zoom=1&x=3&y=0'',
            grid_tile 3 1 ''https://cbk0.google.com/cbk?output=tile&panoid=abc&zoom=1&x=3&y=1'']
   \<and> \<not> sample_is_third_party (id_sv (sample_pano ''abc''))
   \<and> tile_url first_party_tile
       = ''https://cbk0.google.com/cbk?output=tile&panoid=abc&zoom=1&x=3&y=1''
   \<and> streetview_generate_tile_list no_float_ceil sample_is_third_party (sample_pano ''xyz'') 1 =
       Inr [grid_tile 0 0 ''https://lh3.ggpht.com/p/xyz=x0-y0-z1'',
            grid_tile 0 1 ''https://lh3.ggpht.com/p/xyz=x0-y1-z1'',
            grid_tile 1 0 ''https://lh3.ggpht.com/p/xyz=x1-y0-z1'',
            grid_tile 1 1 ''https://lh3.ggpht.com/p/xyz=x1-y1-z1'',
            grid_tile 2 0 ''https://lh3.ggpht.com/p/xyz=x2-y0-z1'',
            grid_tile 2 1 ''https://lh3.ggpht.com/p/xyz=x2-y1-z1'',
            grid_tile 3 0 ''https://lh3.ggpht.com/p/xyz=x3-y0-z1'',
            grid_tile 3 1 ''https://lh3.ggpht.com/p/xyz=x3-y1-z1'']
   \<and> third_party_tile \<in> set
       [grid_tile 0 0 ''https://lh3.ggpht.com/p/xyz=x0-y0-z1'',
            grid_tile 0 1 ''https://lh3.ggpht.com/p/xyz=x0-y1-z1'',
            grid_tile 1 0 ''https://lh3.ggpht.com/p/xyz=x1-y0-z1'',
            grid_tile 1 1 ''https://lh3.ggpht.com/p/xyz=x1-y1-z1'',
            grid_tile 2 0 ''https://lh3.ggpht.com/p/xyz=x2-y0-z1'',
            grid_tile 2 1 ''https://lh3.ggpht.com/p/xyz=x2-y1-z1'',
            grid_tile 3 0 ''https://lh3.ggpht.com/p/xyz=x3-y0-z1'',
            grid_tile 3 1 ''https://lh3.ggpht.com/p/xyz=x3-y1-z1'']
   \<and> sample_is_third_party (id_sv (sample_pano ''xyz''))
   \<and> tile_url third_party_tile = ''https://lh3.ggpht.com/p/xyz=x3-y1-z1''"
proof -
  have first_party: "streetview_generate_tile_list no_float_ceil sample_is_third_party (sample_pano ''abc'') 1 =
       Inr [grid_tile 0 0 ''https://cbk0.google.com/cbk?output=tile&panoid=abc&zoom=1&x=0&y=0'',
            grid_tile 0 1 ''https://cbk0.google.com/cbk?output=tile&panoid=abc&zoom=1&x=0&y=1'',
            grid_tile 1 0 ''https://cbk0.google.com/cbk?output=tile&panoid=abc&zoom=1&x=1&y=0'',
            grid_tile 1 1 ''https://cbk0.google.com/cbk?output=tile&panoid=abc&zoom=1&x=1&y=1'',
            grid_tile 2 0 ''https://cbk0.google.com/cbk?output=tile&panoid=abc&zoom=1&x=2&y=0'',
            grid_tile 2 1 ''https://cbk0.google.com/cbk?output=tile&panoid=abc&zoom=1&x=2&y=1'',
            grid_tile 3 0 ''https://cbk0.google.com/cbk?output=tile&panoid=abc&zoom=1&x=3&y=0'',
            grid_tile 3 1 ''https://cbk0.google.com/cbk?output=tile&panoid=abc&zoom=1&x=3&y=1'']"
    by (simp add: streetview_generate_tile_list_def py_index_def math_ceil_div_def py_range_def
          upt_rec IMAGE_URL_def THIRD_PARTY_IMAGE_URL_def str_int_digit digit_char_def)
  have third_party: "streetview_generate_tile_list no_float_ceil sample_is_third_party (sample_pano ''xyz'') 1 =
       Inr [grid_tile 0 0 ''https://lh3.ggpht.com/p/xyz=x0-y0-z1'',
            grid_tile 0 1 ''https://lh3.ggpht.com/p/xyz=x0-y1-z1'',
            grid_tile 1 0 ''https://lh3.ggpht.com/p/xyz=x1-y0-z1'',
            grid_tile 1 1 ''https://lh3.ggpht.com/p/xyz=x1-y1-z1'',
            grid_tile 2 0 ''https://lh3.ggpht.com/p/xyz=x2-y0-z1'',
            grid_tile 2 1 ''https://lh3.ggpht.com/p/xyz=x2-y1-z1'',
            grid_tile 3 0 ''https://lh3.ggpht.com/p/xyz=x3-y0-z1'',
            grid_tile 3 1 ''https://lh3.ggpht.com/p/xyz=x3-y1-z1'']"
    by (simp add: streetview_generate_tile_list_def py_index_def math_ceil_div_def py_range_def
          upt_rec IMAGE_URL_def THIRD_PARTY_IMAGE_URL_def str_int_digit digit_char_def)
  from streetview_tile_url_template [OF first_party, of "first_party_tile"]
       streetview_tile_url_template [OF third_party, of "third_party_tile"]
       first_party third_party
  show ?thesis by simp
qed

text \<open>
  C7. \<^verbatim>\<open>_validate_get_panorama_params\<close> of the grid engine fails with the InvalidState
  error if and only if the panorama has no image-size table (\<^verbatim>\<open>image_sizes\<close> is
  \<^verbatim>\<open>None\<close> or empty), and \<^verbatim>\<open>get_panorama\<close> then fails with that error. Otherwise the
  validation returns the requested zoom clamped to \<open>[0, number of levels - 1]\<close>, which is
  a valid index of the table, and \<^verbatim>\<open>get_panorama\<close> generates the tile list at the clamped
  zoom: its result is that of the request for the clamped zoom itself. When the download
  collaborator never raises the InvalidState error, \<^verbatim>\<open>get_panorama\<close> fails with it only
  for a panorama without table.
\<close>

theorem streetview_validation:
  "(validate_get_panorama_params pano zoom = Inl InvalidState \<longleftrightarrow>
      image_sizes pano = None \<or> image_sizes pano = Some [])
   \<and> (image_sizes pano = None \<or> image_sizes pano = Some [] \<longrightarrow>
        streetview_get_panorama fetch decodable float_ceil is_third_party_panoid pano zoom = Inl InvalidState)
   \<and> (image_sizes pano = Some sizes \<and> sizes \<noteq> [] \<longrightarrow>
        validate_get_panorama_params pano zoom =
          Inr (max 0 (min zoom (int (length sizes) - 1)))
      \<and> 0 \<le> max 0 (min zoom (int (length sizes) - 1))
      \<and> max 0 (min zoom (int (length sizes) - 1)) \<le> int (length sizes) - 1
      \<and> py_index sizes (max 0 (min zoom (int (length sizes) - 1))) =
          Inr (sizes ! nat (max 0 (min zoom (int (length sizes) - 1))))
      \<and> streetview_get_panorama fetch decodable float_ceil is_third_party_panoid pano zoom =
          streetview_get_panorama fetch decodable float_ceil is_third_party_panoid pano
            (max 0 (min zoom (int (length sizes) - 1)))
      \<and> streetview_get_panorama fetch decodable float_ceil is_third_party_panoid pano zoom =
          (case streetview_generate_tile_list float_ceil is_third_party_panoid pano
                  (max 0 (min zoom (int (length sizes) - 1))) of
             Inl e \<Rightarrow> Inl e
           | Inr tiles \<Rightarrow>
               (case tile_size pano of
                  None \<Rightarrow> Inl AttributeError
                | Some ts \<Rightarrow>
                    get_equirectangular_panorama fetch decodable
                      (size_x (sizes ! nat (max 0 (min zoom (int (length sizes) - 1)))))
                      (size_y (sizes ! nat (max 0 (min zoom (int (length sizes) - 1)))))
                      ts tiles)))
   \<and> ((\<forall>urls. fetch urls \<noteq> Inl InvalidState) \<longrightarrow>
        (streetview_get_panorama fetch decodable float_ceil is_third_party_panoid pano zoom = Inl InvalidState
           \<longleftrightarrow> image_sizes pano = None \<or> image_sizes pano = Some []))"
proof (intro conjI impI)
  show iff: "validate_get_panorama_params pano zoom = Inl InvalidState \<longleftrightarrow>
      image_sizes pano = None \<or> image_sizes pano = Some []"
    by (simp add: validate_get_panorama_params_def split: option.splits)
  show absent: "streetview_get_panorama fetch decodable float_ceil is_third_party_panoid pano zoom = Inl InvalidState"
    if "image_sizes pano = None \<or> image_sizes pano = Some []"
    using that iff by (simp add: streetview_get_panorama_def)
  {
    assume table: "image_sizes pano = Some sizes \<and> sizes \<noteq> []"
    define clamped where "clamped = max 0 (min zoom (int (length sizes) - 1))"
    from table show v: "validate_get_panorama_params pano zoom =
          Inr (max 0 (min zoom (int (length sizes) - 1)))"
      by (simp add: validate_get_panorama_params_def)
    show "0 \<le> max 0 (min zoom (int (length sizes) - 1))" by simp
    from table have "0 < length sizes" by simp
    then show "max 0 (min zoom (int (length sizes) - 1)) \<le> int (length sizes) - 1"
      by simp
    from table show idx: "py_index sizes (max 0 (min zoom (int (length sizes) - 1))) =
          Inr (sizes ! nat (max 0 (min zoom (int (length sizes) - 1))))"
      by (simp add: py_index_clamped)
    from table have again: "validate_get_panorama_params pano clamped = Inr clamped"
      by (simp add: validate_get_panorama_params_def clamped_def)
    from v again
    show "streetview_get_panorama fetch decodable float_ceil is_third_party_panoid pano zoom =
          streetview_get_panorama fetch decodable float_ceil is_third_party_panoid pano
            (max 0 (min zoom (int (length sizes) - 1)))"
      by (simp add: streetview_get_panorama_def clamped_def [symmetric])
    from table v idx
    show "streetview_get_panorama fetch decodable float_ceil is_third_party_panoid pano zoom =
          (case streetview_generate_tile_list float_ceil is_third_party_panoid pano
                  (max 0 (min zoom (int (length sizes) - 1))) of
             Inl e \<Rightarrow> Inl e
           | Inr tiles \<Rightarrow>
               (case tile_size pano of
                  None \<Rightarrow> Inl AttributeError
                | Some ts \<Rightarrow>
                    get_equirectangular_panorama fetch decodable
                      (size_x (sizes ! nat (max 0 (min zoom (int (length sizes) - 1)))))
                      (size_y (sizes ! nat (max 0 (min zoom (int (length sizes) - 1)))))
                      ts tiles))"
      by (simp add: streetview_get_panorama_def)
  }
  {
    assume quiet: "\<forall>urls. fetch urls \<noteq> Inl InvalidState"
    have gen: "streetview_generate_tile_list float_ceil is_third_party_panoid pano z \<noteq> Inl InvalidState"
      for z
      by (auto simp: streetview_generate_tile_list_def py_index_def Let_def
               dest: math_ceil_div_error
               split: option.splits sum.splits if_splits)
    have gep: "get_equirectangular_panorama fetch decodable w h ts tiles \<noteq> Inl InvalidState"
      for w h ts tiles
      using quiet
      by (auto simp: get_equirectangular_panorama_def dest: paste_tiles_error
               split: sum.splits if_splits)
    have "image_sizes pano = None \<or> image_sizes pano = Some []"
      if failed: "streetview_get_panorama fetch decodable float_ceil is_third_party_panoid pano zoom
                    = Inl InvalidState"
    proof (rule ccontr)
      assume "\<not> (image_sizes pano = None \<or> image_sizes pano = Some [])"
      then obtain szs where t: "image_sizes pano = Some szs" "szs \<noteq> []" by auto
      then have "validate_get_panorama_params pano zoom =
                   Inr (max 0 (min zoom (int (length szs) - 1)))"
        by (simp add: validate_get_panorama_params_def)
      with failed t gen gep show False
        by (auto simp: streetview_get_panorama_def py_index_clamped
                 split: sum.splits option.splits)
    qed
    with absent
    show "streetview_get_panorama fetch decodable float_ceil is_third_party_panoid pano zoom = Inl InvalidState
           \<longleftrightarrow> image_sizes pano = None \<or> image_sizes pano = Some []"
      by blast
  }
qed

theorem streetview_validation_witness:
  "validate_get_panorama_params pano_without_table 3 = Inl InvalidState
   \<and> validate_get_panorama_params pano_with_empty_table 3 = Inl InvalidState
   \<and> streetview_get_panorama good_fetch sample_decodable no_float_ceil sample_is_third_party pano_without_table 3 = Inl InvalidState
   \<and> image_sizes (sample_pano ''abc'') = Some sample_sizes
   \<and> sample_sizes \<noteq> []
   \<and> validate_get_panorama_params (sample_pano ''abc'') 5 = Inr 1
   \<and> validate_get_panorama_params (sample_pano ''abc'') (-2) = Inr 0
   \<and> streetview_get_panorama good_fetch sample_decodable no_float_ceil sample_is_third_party (sample_pano ''abc'') 5
       = streetview_get_panorama good_fetch sample_decodable no_float_ceil sample_is_third_party (sample_pano ''abc'') 1
   \<and> (\<forall>urls. good_fetch urls \<noteq> Inl InvalidState)
   \<and> streetview_get_panorama good_fetch sample_decodable no_float_ceil sample_is_third_party (sample_pano ''abc'') 5
       \<noteq> Inl InvalidState"
proof -
  note absent =
    streetview_validation [of "pano_without_table" 3 "good_fetch" sample_decodable no_float_ceil "sample_is_third_party" "[]"]
  note empty =
    streetview_validation [of "pano_with_empty_table" 3 "good_fetch" sample_decodable no_float_ceil "sample_is_third_party" "[]"]
  note high =
    streetview_validation [of "(sample_pano ''abc'')" 5 "good_fetch" sample_decodable no_float_ceil "sample_is_third_party"
       "sample_sizes"]
  note low =
    streetview_validation [of "(sample_pano ''abc'')" "-2" "good_fetch" sample_decodable no_float_ceil "sample_is_third_party"
       "sample_sizes"]
  from absent have 1: "validate_get_panorama_params pano_without_table 3 = Inl InvalidState"
    by simp
  from empty have 2: "validate_get_panorama_params pano_with_empty_table 3 = Inl InvalidState"
    by simp
  from absent
  have 3: "streetview_get_panorama good_fetch sample_decodable no_float_ceil sample_is_third_party pano_without_table 3 = Inl InvalidState"
    by simp
  from high have 4: "validate_get_panorama_params (sample_pano ''abc'') 5 = Inr 1"
    by simp
  from low have 5: "validate_get_panorama_params (sample_pano ''abc'') (-2) = Inr 0"
    by simp
  from high have 6: "streetview_get_panorama good_fetch sample_decodable no_float_ceil sample_is_third_party (sample_pano ''abc'') 5
       = streetview_get_panorama good_fetch sample_decodable no_float_ceil sample_is_third_party (sample_pano ''abc'') 1"
    by simp
  from high [THEN conjunct2, THEN conjunct2, THEN conjunct2]
  have 7: "streetview_get_panorama good_fetch sample_decodable no_float_ceil sample_is_third_party (sample_pano ''abc'') 5
             \<noteq> Inl InvalidState"
    by simp
  from 1 2 3 4 5 6 7 show ?thesis by simp
qed
end
